theory Spec2Isabelle
  imports Complex_Main
begin

section \<open>NARR plotting module: data model\<close>

text \<open>
  The module under verification is \<^verbatim>\<open>narr_data.py\<close>: the helper \<^verbatim>\<open>time_convert\<close> and the
  two renderers \<^verbatim>\<open>weather_plot_hgt\<close> and \<^verbatim>\<open>weather_plot_dew\<close>.

  Samples are Python/NumPy floats in the source. They are represented by \<^typ>\<open>real\<close>:
  arithmetic is exact, and NaN and the infinities do not exist. Arrays are nested lists,
  the outermost list being the first axis.
\<close>

datatype error = FileNotFoundError | IndexError | OverflowError | TypeError

subsection \<open>Calendar arithmetic of \<^verbatim>\<open>datetime\<close>\<close>

text \<open>
  \<^verbatim>\<open>datetime\<close> works on proleptic Gregorian ordinals: day 1 is 0001-01-01 and the largest
  ordinal is that of 9999-12-31. The functions below follow the pure-Python reference
  implementation of the standard library (\<^verbatim>\<open>_days_before_year\<close>, \<^verbatim>\<open>_ymd2ord\<close>,
  \<^verbatim>\<open>_ord2ymd\<close>, \<^verbatim>\<open>timedelta.__new__\<close>, \<^verbatim>\<open>datetime.__add__\<close>).
\<close>

definition MAXORDINAL :: int where
  "MAXORDINAL = 3652059"

definition is_leap :: "int \<Rightarrow> bool" where
  "is_leap y = (y mod 4 = 0 \<and> (y mod 100 \<noteq> 0 \<or> y mod 400 = 0))"

definition days_before_year :: "int \<Rightarrow> int" where
  "days_before_year year = (let y = year - 1 in y * 365 + y div 4 - y div 100 + y div 400)"

definition DAYS_IN_MONTH :: "int list" where
  "DAYS_IN_MONTH = [0, 31, 28, 31, 30, 31, 30, 31, 31, 30, 31, 30, 31]"

definition DAYS_BEFORE_MONTH :: "int list" where
  "DAYS_BEFORE_MONTH = [0, 0, 31, 59, 90, 120, 151, 181, 212, 243, 273, 304, 334]"

definition days_before_month :: "int \<Rightarrow> int \<Rightarrow> int" where
  "days_before_month year month =
     DAYS_BEFORE_MONTH ! nat month + (if month > 2 \<and> is_leap year then 1 else 0)"

definition ymd2ord :: "int \<Rightarrow> int \<Rightarrow> int \<Rightarrow> int" where
  "ymd2ord year month day = days_before_year year + days_before_month year month + day"

text \<open>The second half of \<^verbatim>\<open>_ord2ymd\<close>: month and day from the zero-based day \<open>n\<close> of the
  year, by an estimate of the month that is corrected downwards when it is too large.\<close>

definition month_and_day :: "int \<Rightarrow> bool \<Rightarrow> int \<Rightarrow> int \<times> int \<times> int" where
  "month_and_day year leapyear n =
     (let month = (n + 50) div 32;
          preceding = DAYS_BEFORE_MONTH ! nat month
                      + (if month > 2 \<and> leapyear then 1 else 0)
      in if preceding > n
         then let month = month - 1;
                  preceding = preceding
                              - (DAYS_IN_MONTH ! nat month
                                 + (if month = 2 \<and> leapyear then 1 else 0))
              in (year, month, n - preceding + 1)
         else (year, month, n - preceding + 1))"

definition ord2ymd :: "int \<Rightarrow> int \<times> int \<times> int" where
  "ord2ymd n0 =
     (let n = n0 - 1;
          n400 = n div 146097; n = n mod 146097;
          year = n400 * 400 + 1;
          n100 = n div 36524; n = n mod 36524;
          n4 = n div 1461; n = n mod 1461;
          n1 = n div 365; n = n mod 365;
          year = year + n100 * 100 + n4 * 4 + n1
      in if n1 = 4 \<or> n100 = 4 then (year - 1, 12, 31)
         else month_and_day year (n1 = 3 \<and> (n4 \<noteq> 24 \<or> n100 = 3)) n)"

record datetime =
  year :: int
  month :: int
  day :: int
  hour :: int
  minute :: int
  second :: int

record timedelta =
  days :: int
  seconds :: int

definition toordinal :: "datetime \<Rightarrow> int" where
  "toordinal d = ymd2ord (year d) (month d) (day d)"

text \<open>\<^verbatim>\<open>timedelta(hours=h)\<close>: normalised to days and seconds; more than 999999999 days
  in either direction is an \<^verbatim>\<open>OverflowError\<close>.\<close>

definition timedelta_hours :: "int \<Rightarrow> error + timedelta" where
  "timedelta_hours h =
     (let d = h div 24; s = (h mod 24) * 3600
      in if \<bar>d\<bar> > 999999999 then Inl OverflowError
         else Inr \<lparr>days = d, seconds = s\<rparr>)"

text \<open>\<^verbatim>\<open>datetime + timedelta\<close>: the sum is taken on (ordinal, seconds of the day) and
  is an \<^verbatim>\<open>OverflowError\<close> when the resulting ordinal leaves \<open>1..MAXORDINAL\<close>.\<close>

definition datetime_add :: "datetime \<Rightarrow> timedelta \<Rightarrow> error + datetime" where
  "datetime_add d t =
     (let secs = hour d * 3600 + minute d * 60 + second d + seconds t;
          dd = toordinal d + days t + secs div 86400;
          ss = secs mod 86400
      in if \<bar>dd\<bar> > 999999999 then Inl OverflowError
         else if 0 < dd \<and> dd \<le> MAXORDINAL
         then (case ord2ymd dd of (y, m, dy) \<Rightarrow>
                 Inr \<lparr>year = y, month = m, day = dy,
                      hour = ss div 3600, minute = (ss mod 3600) div 60,
                      second = (ss mod 3600) mod 60\<rparr>)
         else Inl OverflowError)"

subsection \<open>Formatting\<close>

definition digit :: "int \<Rightarrow> char" where
  "digit n = ''0123456789'' ! nat n"

definition pad2 :: "int \<Rightarrow> string" where
  "pad2 n = [digit (n div 10 mod 10), digit (n mod 10)]"

definition pad4 :: "int \<Rightarrow> string" where
  "pad4 n = [digit (n div 1000 mod 10), digit (n div 100 mod 10),
             digit (n div 10 mod 10), digit (n mod 10)]"

text \<open>
  The directive \<^verbatim>\<open>%Y\<close>: four digits from the year 1000 on. Below 1000 the C library
  decides whether the year is padded with zeros (glibc does not pad), so the text of such
  a year is left unspecified.
\<close>

definition year_text :: "int \<Rightarrow> string" where
  "year_text y = (if 1000 \<le> y then pad4 y else undefined y)"

text \<open>\<^verbatim>\<open>x.strftime('%Y-%m-%d %H:%M:%S')\<close>.\<close>

definition strftime :: "datetime \<Rightarrow> string" where
  "strftime d = year_text (year d) @ ''-'' @ pad2 (month d) @ ''-'' @ pad2 (day d) @ '' ''
                @ pad2 (hour d) @ '':'' @ pad2 (minute d) @ '':'' @ pad2 (second d)"

subsection \<open>Files\<close>

text \<open>
  The latitude and longitude variables are NumPy arrays of one or two axes; the renderers
  index them with two slices, which NumPy accepts on two axes only.
\<close>

datatype coords = Axis1 "real list" | Axis2 "real list list"

text \<open>
  A dataset holds the coordinate variables \<^verbatim>\<open>time\<close>, \<^verbatim>\<open>level\<close>, \<^verbatim>\<open>lat\<close>, \<^verbatim>\<open>lon\<close> and the
  one data variable the renderer asks this file for (\<^verbatim>\<open>uwnd\<close>, \<^verbatim>\<open>vwnd\<close>, \<^verbatim>\<open>hgt\<close> or \<^verbatim>\<open>dpt\<close>).
  The type \<open>'d\<close> of the data variable is a four-axis array for the pressure-level files and
  a three-axis array for the surface files. \<open>level_cast\<close> is the conversion of a Python
  integer to the floating-point type of the \<^verbatim>\<open>level\<close> variable, which NumPy applies to the
  requested level before it compares it with the axis.
\<close>

record 'd dataset =
  time_var :: "real list"
  level_var :: "real list"
  level_cast :: "int \<Rightarrow> real"
  lat_var :: coords
  lon_var :: coords
  data_var :: 'd

subsection \<open>\<^verbatim>\<open>time_convert\<close>\<close>

text \<open>Python's \<^verbatim>\<open>int(x)\<close> on a float: the fractional part is dropped.\<close>

definition py_int :: "real \<Rightarrow> int" where
  "py_int x = (if x \<ge> 0 then \<lfloor>x\<rfloor> else \<lceil>x\<rceil>)"

text \<open>A list comprehension whose body may raise: the first exception ends it.\<close>

fun comprehension :: "('a \<Rightarrow> error + 'b) \<Rightarrow> 'a list \<Rightarrow> error + 'b list" where
  "comprehension f [] = Inr []"
| "comprehension f (x # xs) =
     (case f x of
        Inl e \<Rightarrow> Inl e
      | Inr y \<Rightarrow> (case comprehension f xs of Inl e \<Rightarrow> Inl e | Inr ys \<Rightarrow> Inr (y # ys)))"

definition start :: datetime where
  "start = \<lparr>year = 1800, month = 1, day = 1, hour = 0, minute = 0, second = 0\<rparr>"

text \<open>The list \<^verbatim>\<open>offset\<close> of the source: the epoch plus each time step.\<close>

definition offset :: "('d, 'm) dataset_scheme \<Rightarrow> error + datetime list" where
  "offset file =
     (case comprehension (\<lambda>i. timedelta_hours (py_int i)) (time_var file) of
        Inl e \<Rightarrow> Inl e
      | Inr delta \<Rightarrow> comprehension (\<lambda>x. datetime_add start x) delta)"

definition time_convert :: "('d, 'm) dataset_scheme \<Rightarrow> error + string list" where
  "time_convert file =
     (case offset file of
        Inl e \<Rightarrow> Inl e
      | Inr offs \<Rightarrow> Inr (map strftime offs))"

text \<open>The order of \<^verbatim>\<open>datetime\<close> values: the comparison of the tuples
  (year, month, day, hour, minute, second).\<close>

definition datetime_lt :: "datetime \<Rightarrow> datetime \<Rightarrow> bool" where
  "datetime_lt a b =
     (year a < year b \<or> (year a = year b \<and>
       (month a < month b \<or> (month a = month b \<and>
         (day a < day b \<or> (day a = day b \<and>
           (hour a < hour b \<or> (hour a = hour b \<and>
             (minute a < minute b \<or> (minute a = minute b \<and> second a < second b))))))))))"

subsection \<open>Array operations used by the renderers\<close>

text \<open>\<^verbatim>\<open>np.where(cond)[0]\<close>: the indices at which the condition holds, in increasing order;
  the trailing \<^verbatim>\<open>[0]\<close> takes the first and raises \<^verbatim>\<open>IndexError\<close> when there is none.\<close>

definition np_where :: "('a \<Rightarrow> bool) \<Rightarrow> 'a list \<Rightarrow> nat list" where
  "np_where P xs = filter (\<lambda>i. P (xs ! i)) [0..<length xs]"

definition first_index :: "('a \<Rightarrow> bool) \<Rightarrow> 'a list \<Rightarrow> error + nat" where
  "first_index P xs = (case np_where P xs of [] \<Rightarrow> Inl IndexError | i # _ \<Rightarrow> Inr i)"

text \<open>
  \<^verbatim>\<open>np.array(time) == date\<close> compares fixed-width strings, in which trailing NUL characters
  are padding: two strings are equal when they agree up to trailing NULs.
\<close>

definition rstrip_nul :: "string \<Rightarrow> string" where
  "rstrip_nul s = rev (dropWhile (\<lambda>c. c = CHR 0x00) (rev s))"

definition np_str_eq :: "string \<Rightarrow> string \<Rightarrow> bool" where
  "np_str_eq a b = (rstrip_nul a = rstrip_nul b)"

definition time_where :: "string list \<Rightarrow> string \<Rightarrow> error + nat" where
  "time_where time date = first_index (\<lambda>t. np_str_eq t date) time"

text \<open>\<^verbatim>\<open>uwnd_file['level'][:] == level\<close>: the integer is converted to the type of the axis
  (the first argument) and compared with each entry.\<close>

definition level_where :: "(int \<Rightarrow> real) \<Rightarrow> real list \<Rightarrow> int \<Rightarrow> error + nat" where
  "level_where cast levels level = first_index (\<lambda>l. l = cast level) levels"

text \<open>\<^verbatim>\<open>a[i]\<close> with a non-negative index.\<close>

definition getitem :: "'a list \<Rightarrow> nat \<Rightarrow> error + 'a" where
  "getitem xs i = (if i < length xs then Inr (xs ! i) else Inl IndexError)"

text \<open>The slice \<^verbatim>\<open>[::2]\<close> on one axis and \<^verbatim>\<open>[::2, ::2]\<close> on two.\<close>

fun every_other :: "'a list \<Rightarrow> 'a list" where
  "every_other [] = []"
| "every_other [x] = [x]"
| "every_other (x # y # xs) = x # every_other xs"

definition slice2 :: "'a list list \<Rightarrow> 'a list list" where
  "slice2 g = map every_other (every_other g)"

fun slice2_coords :: "coords \<Rightarrow> error + coords" where
  "slice2_coords (Axis1 xs) = Inl IndexError"
| "slice2_coords (Axis2 g) = Inr (Axis2 (slice2 g))"

fun len :: "coords \<Rightarrow> nat" where
  "len (Axis1 xs) = length xs"
| "len (Axis2 g) = length g"

text \<open>The shape of a two-axis array (rows are of equal length in NumPy).\<close>

definition shape :: "'a list list \<Rightarrow> nat \<times> nat" where
  "shape g = (length g, case g of [] \<Rightarrow> 0 | r # _ \<Rightarrow> length r)"

definition scale :: "real \<Rightarrow> real list list \<Rightarrow> real list list" where
  "scale c g = map (map (\<lambda>x. x / c)) g"

definition shift :: "real \<Rightarrow> real list list \<Rightarrow> real list list" where
  "shift c g = map (map (\<lambda>x. x - c)) g"

text \<open>\<^verbatim>\<open>str\<close> of an integer.\<close>

fun str_nat :: "nat \<Rightarrow> string" where
  "str_nat n = (if n < 10 then [digit (int n)] else str_nat (n div 10) @ [digit (int (n mod 10))])"

declare str_nat.simps [simp del]

definition str_int :: "int \<Rightarrow> string" where
  "str_int i = (if i < 0 then CHR ''-'' # str_nat (nat (- i)) else str_nat (nat i))"

subsection \<open>The world: files, open handles and figures\<close>

text \<open>
  A figure records what the renderer asked of its axis: the extent, the arguments of
  \<^verbatim>\<open>contourf\<close> (x, y, field, levels, colormap) and of \<^verbatim>\<open>barbs\<close> (x, y, u, v, colour), the
  features added and the label of the colour bar. Of the validation that the plotting
  libraries apply to these arguments, the test of the shapes by \<^verbatim>\<open>contourf\<close> is
  represented (in \<open>draw\<close> below); the rest is outside the module.
\<close>

record figure =
  extent :: "real list option"
  contourf :: "(coords \<times> coords \<times> real list list \<times> real list \<times> string) option"
  barbs :: "(coords \<times> coords \<times> real list list \<times> real list list \<times> string) option"
  features :: "string list"
  colorbar_label :: "string option"

text \<open>
  \<open>files\<close> maps a path to the contents of the file there; \<open>handles\<close> lists the
  \<^verbatim>\<open>Dataset\<close> objects created so far, each with its path and whether it is still open;
  \<open>figures\<close> lists the figures created so far. A handle and a plot handle are positions
  in these lists.
\<close>

record 'd world =
  files :: "string \<rightharpoonup> 'd dataset"
  handles :: "(string \<times> bool) list"
  figures :: "figure list"

definition Dataset :: "string \<Rightarrow> 'd world \<Rightarrow> (error + nat \<times> 'd dataset) \<times> 'd world" where
  "Dataset path w =
     (case files w path of
        None \<Rightarrow> (Inl FileNotFoundError, w)
      | Some d \<Rightarrow> (Inr (length (handles w), d), w\<lparr>handles := handles w @ [(path, True)]\<rparr>))"

definition close :: "nat \<Rightarrow> 'd world \<Rightarrow> 'd world" where
  "close h w = w\<lparr>handles := (handles w)[h := (fst (handles w ! h), False)]\<rparr>"

definition is_open :: "'d world \<Rightarrow> nat \<Rightarrow> bool" where
  "is_open w h = (h < length (handles w) \<and> snd (handles w ! h))"

text \<open>The three \<^verbatim>\<open>Dataset\<close> calls that open both renderers.\<close>

definition open_files ::
  "string \<Rightarrow> string \<Rightarrow> string \<Rightarrow> 'd world
   \<Rightarrow> (error + (nat \<times> 'd dataset) \<times> (nat \<times> 'd dataset) \<times> (nat \<times> 'd dataset)) \<times> 'd world" where
  "open_files p1 p2 p3 w =
     (case Dataset p1 w of
        (Inl e, w1) \<Rightarrow> (Inl e, w1)
      | (Inr f1, w1) \<Rightarrow>
          (case Dataset p2 w1 of
             (Inl e, w2) \<Rightarrow> (Inl e, w2)
           | (Inr f2, w2) \<Rightarrow>
               (case Dataset p3 w2 of
                  (Inl e, w3) \<Rightarrow> (Inl e, w3)
                | (Inr f3, w3) \<Rightarrow> (Inr (f1, f2, f3), w3))))"

definition close_files :: "nat \<Rightarrow> nat \<Rightarrow> nat \<Rightarrow> 'd world \<Rightarrow> 'd world" where
  "close_files h1 h2 h3 w = close h3 (close h2 (close h1 w))"

text \<open>\<^verbatim>\<open>plt.subplots\<close>: a new, empty figure; its axis is the plot handle.\<close>

definition empty_figure :: figure where
  "empty_figure = \<lparr>extent = None, contourf = None, barbs = None, features = [],
                    colorbar_label = None\<rparr>"

definition subplots :: "'d world \<Rightarrow> nat \<times> 'd world" where
  "subplots w = (length (figures w), w\<lparr>figures := figures w @ [empty_figure]\<rparr>)"

definition on_axis :: "nat \<Rightarrow> (figure \<Rightarrow> figure) \<Rightarrow> 'd world \<Rightarrow> 'd world" where
  "on_axis ax f w = w\<lparr>figures := (figures w)[ax := f (figures w ! ax)]\<rparr>"

definition FEATURES :: "string list" where
  "FEATURES = [''BORDERS'', ''COASTLINE'', ''OCEAN'', ''LAND'', ''LAKES'', ''RIVERS'',
               ''GSHHS'', ''USCOUNTIES'']"

text \<open>What a renderer has read from its files when it closes them.\<close>

record selection =
  sel_uwnd :: "real list list"
  sel_vwnd :: "real list list"
  sel_field :: "real list list"
  sel_lat :: coords
  sel_lon :: coords

subsection \<open>The renderers\<close>

definition getitem2 :: "'a list list \<Rightarrow> nat \<Rightarrow> nat \<Rightarrow> error + 'a" where
  "getitem2 a i j = (case getitem a i of Inl e \<Rightarrow> Inl e | Inr row \<Rightarrow> getitem row j)"

text \<open>Lines 69 to 81 of \<^verbatim>\<open>weather_plot_hgt\<close>: the time axis, the two index searches,
  the three slices, the coordinates of the u-wind file, the conversion to knots.\<close>

definition hgt_select ::
  "real list list list list dataset \<Rightarrow> real list list list list dataset
   \<Rightarrow> real list list list list dataset \<Rightarrow> int \<Rightarrow> string \<Rightarrow> error + selection" where
  "hgt_select uwnd_file vwnd_file hgt_file level date =
     (case time_convert uwnd_file of Inl e \<Rightarrow> Inl e | Inr time \<Rightarrow>
      case time_where time date of Inl e \<Rightarrow> Inl e | Inr tw \<Rightarrow>
      case level_where (level_cast uwnd_file) (level_var uwnd_file) level of Inl e \<Rightarrow> Inl e | Inr lw \<Rightarrow>
      case getitem2 (data_var uwnd_file) tw lw of Inl e \<Rightarrow> Inl e | Inr uwnd \<Rightarrow>
      case getitem2 (data_var vwnd_file) tw lw of Inl e \<Rightarrow> Inl e | Inr vwnd \<Rightarrow>
      case getitem2 (data_var hgt_file) tw lw of Inl e \<Rightarrow> Inl e | Inr hgt \<Rightarrow>
        Inr \<lparr>sel_uwnd = scale 0.514 uwnd, sel_vwnd = scale 0.514 vwnd, sel_field = hgt,
             sel_lat = lat_var uwnd_file, sel_lon = lon_var uwnd_file\<rparr>)"

text \<open>Lines 146 to 156 of \<^verbatim>\<open>weather_plot_dew\<close>.\<close>

definition dew_select ::
  "real list list list dataset \<Rightarrow> real list list list dataset
   \<Rightarrow> real list list list dataset \<Rightarrow> string \<Rightarrow> error + selection" where
  "dew_select uwnd_file vwnd_file dew_file date =
     (case time_convert uwnd_file of Inl e \<Rightarrow> Inl e | Inr time \<Rightarrow>
      case time_where time date of Inl e \<Rightarrow> Inl e | Inr tw \<Rightarrow>
      case getitem (data_var uwnd_file) tw of Inl e \<Rightarrow> Inl e | Inr uwnd \<Rightarrow>
      case getitem (data_var vwnd_file) tw of Inl e \<Rightarrow> Inl e | Inr vwnd \<Rightarrow>
      case getitem (data_var dew_file) tw of Inl e \<Rightarrow> Inl e | Inr dew \<Rightarrow>
        Inr \<lparr>sel_uwnd = scale 0.514 uwnd, sel_vwnd = scale 0.514 vwnd, sel_field = dew,
             sel_lat = lat_var uwnd_file, sel_lon = lon_var uwnd_file\<rparr>)"

definition height_range :: "real list" where
  "height_range = map (\<lambda>i. 5910 + 5 * real i) [0..<18]"

definition dew_range :: "real list" where
  "dew_range = map (\<lambda>i. 18.5 + 0.3 * real i) [0..<19]"

definition add_features :: "nat \<Rightarrow> 'd world \<Rightarrow> 'd world" where
  "add_features ax w =
     fold (\<lambda>name. on_axis ax (\<lambda>f. f\<lparr>features := features f @ [name]\<rparr>)) FEATURES w"

text \<open>
  The test that \<^verbatim>\<open>contourf\<close> applies to its first three arguments before it draws
  (\<^verbatim>\<open>_check_xyz\<close> of Matplotlib): the field has at least two rows and two columns, and the
  coordinates are either two one-axis arrays, of as many entries as the field has columns
  and rows, or two two-axis arrays of the shape of the field; otherwise it raises
  \<^verbatim>\<open>TypeError\<close>.
\<close>

definition check_xyz :: "coords \<Rightarrow> coords \<Rightarrow> real list list \<Rightarrow> error option" where
  "check_xyz x y z =
     (case shape z of (ny, nx) \<Rightarrow>
        if ny < 2 \<or> nx < 2 then Some TypeError
        else (case x of
                Axis1 xs \<Rightarrow>
                  (case y of
                     Axis1 ys \<Rightarrow> if length xs \<noteq> nx \<or> length ys \<noteq> ny
                                 then Some TypeError else None
                   | Axis2 gy \<Rightarrow> Some TypeError)
              | Axis2 gx \<Rightarrow>
                  (case y of
                     Axis1 ys \<Rightarrow> Some TypeError
                   | Axis2 gy \<Rightarrow> if shape gx \<noteq> (ny, nx) \<or> shape gy \<noteq> (ny, nx)
                                 then Some TypeError else None)))"

text \<open>
  The plotting part, which the two renderers share word for word (lines 92 to 108 and
  167 to 183) up to the field, the levels and the label of the contour plot: a new figure,
  the extent when one is given, the filled contours, the barbs at every other grid point,
  the features, the colour bar. \<^verbatim>\<open>contourf\<close> raises before it draws when its arguments do
  not fit; the slices of \<^verbatim>\<open>lon\<close> and \<^verbatim>\<open>lat\<close> are evaluated when the figure and the
  contours exist already.
\<close>

definition draw ::
  "real list list \<Rightarrow> real list \<Rightarrow> string \<Rightarrow> selection \<Rightarrow> string \<Rightarrow> string
   \<Rightarrow> real list option \<Rightarrow> 'd world \<Rightarrow> (error + nat) \<times> 'd world" where
  "draw field levels label sel cmap barb_color ext w =
     (case subplots w of (ax, w1) \<Rightarrow>
        let w2 = (case ext of None \<Rightarrow> w1
                  | Some e \<Rightarrow> on_axis ax (\<lambda>f. f\<lparr>extent := Some e\<rparr>) w1)
        in case check_xyz (sel_lon sel) (sel_lat sel) field of Some e \<Rightarrow> (Inl e, w2) | None \<Rightarrow>
           let w3 = on_axis ax
                      (\<lambda>f. f\<lparr>contourf := Some (sel_lon sel, sel_lat sel, field, levels, cmap)\<rparr>) w2
           in case slice2_coords (sel_lon sel) of Inl e \<Rightarrow> (Inl e, w3) | Inr lon2 \<Rightarrow>
              case slice2_coords (sel_lat sel) of Inl e \<Rightarrow> (Inl e, w3) | Inr lat2 \<Rightarrow>
                let w4 = on_axis ax
                           (\<lambda>f. f\<lparr>barbs := Some (lon2, lat2, slice2 (sel_uwnd sel),
                                                 slice2 (sel_vwnd sel), barb_color)\<rparr>) w3;
                    w5 = add_features ax w4;
                    w6 = on_axis ax (\<lambda>f. f\<lparr>colorbar_label := Some label\<rparr>) w5
                in (Inr ax, w6))"

definition weather_plot_hgt ::
  "string \<Rightarrow> string \<Rightarrow> string \<Rightarrow> int \<Rightarrow> string \<Rightarrow> string \<Rightarrow> string \<Rightarrow> real list option
   \<Rightarrow> real list list list list world
   \<Rightarrow> (error + real list list \<times> nat) \<times> real list list list list world" where
  "weather_plot_hgt uwnd_file vwnd_file hgt_file level date cmap barb_color ext w =
     (case open_files uwnd_file vwnd_file hgt_file w of
        (Inl e, w1) \<Rightarrow> (Inl e, w1)
      | (Inr ((hu, u), (hv, v), (hs, h)), w1) \<Rightarrow>
          (case hgt_select u v h level date of
             Inl e \<Rightarrow> (Inl e, w1)
           | Inr sel \<Rightarrow>
               (case draw (sel_field sel) height_range
                       (str_int level @ '' mb Geopotential Height (meters)'')
                       sel cmap barb_color ext (close_files hu hv hs w1) of
                  (Inl e, w2) \<Rightarrow> (Inl e, w2)
                | (Inr ax, w2) \<Rightarrow> (Inr (sel_field sel, ax), w2))))"

definition weather_plot_dew ::
  "string \<Rightarrow> string \<Rightarrow> string \<Rightarrow> string \<Rightarrow> string \<Rightarrow> string \<Rightarrow> real list option
   \<Rightarrow> real list list list world
   \<Rightarrow> (error + real list list \<times> nat) \<times> real list list list world" where
  "weather_plot_dew uwnd_file vwnd_file dew_file date cmap barb_color ext w =
     (case open_files uwnd_file vwnd_file dew_file w of
        (Inl e, w1) \<Rightarrow> (Inl e, w1)
      | (Inr ((hu, u), (hv, v), (hs, d)), w1) \<Rightarrow>
          (case dew_select u v d date of
             Inl e \<Rightarrow> (Inl e, w1)
           | Inr sel \<Rightarrow>
               (case draw (shift 273.15 (sel_field sel)) dew_range
                       ''2-Meter Dewpoint (Celsius)''
                       sel cmap barb_color ext (close_files hu hv hs w1) of
                  (Inl e, w2) \<Rightarrow> (Inl e, w2)
                | (Inr ax, w2) \<Rightarrow> (Inr (sel_field sel, ax), w2))))"

section \<open>Specification predicates and example inputs\<close>

text \<open>One element of the list \<^verbatim>\<open>offset\<close>: the date is the one whose ordinal is that of the
  epoch plus the whole days of the step, the hour is the rest.\<close>

definition stepped :: "int \<Rightarrow> datetime \<Rightarrow> bool" where
  "stepped h d \<longleftrightarrow>
     toordinal d * 24 + hour d = toordinal start * 24 + h \<and>
     1 \<le> month d \<and> month d \<le> 12 \<and> 1 \<le> day d \<and>
     day d \<le> DAYS_IN_MONTH ! nat (month d) + (if month d = 2 \<and> is_leap (year d) then 1 else 0) \<and>
     0 \<le> hour d \<and> hour d < 24 \<and> minute d = 0 \<and> second d = 0"

definition late_file :: "unit dataset" where
  "late_file = \<lparr>time_var = [71879712], level_var = [], level_cast = of_int, lat_var = Axis1 [], lon_var = Axis1 [],
                 data_var = ()\<rparr>"

definition sample_file :: "unit dataset" where
  "sample_file = \<lparr>time_var = [0, 8760, -1.5], level_var = [], level_cast = of_int, lat_var = Axis1 [],
                   lon_var = Axis1 [], data_var = ()\<rparr>"

definition half_hour_file :: "unit dataset" where
  "half_hour_file = \<lparr>time_var = [-0.5], level_var = [], level_cast = of_int, lat_var = Axis1 [],
                   lon_var = Axis1 [], data_var = ()\<rparr>"

definition minus_ninety_minutes_file :: "unit dataset" where
  "minus_ninety_minutes_file = \<lparr>time_var = [-1.5], level_var = [], level_cast = of_int, lat_var = Axis1 [],
                   lon_var = Axis1 [], data_var = ()\<rparr>"

text \<open>The figure as it is when the contours are drawn and the barbs are not.\<close>

definition contour_stage ::
  "real list list \<Rightarrow> real list \<Rightarrow> selection \<Rightarrow> string \<Rightarrow> real list option \<Rightarrow> figure" where
  "contour_stage field levels sel cmap ext =
     \<lparr>extent = ext, contourf = Some (sel_lon sel, sel_lat sel, field, levels, cmap),
      barbs = None, features = [], colorbar_label = None\<rparr>"

text \<open>
  The array \<open>plotted\<close> holds every other row of \<open>raw\<close> and every other sample of each of
  these rows, no more and no fewer, each sample divided by 0.514.
\<close>

definition in_knots :: "real list list \<Rightarrow> real list list \<Rightarrow> bool" where
  "in_knots raw plotted \<longleftrightarrow>
     length plotted = (length raw + 1) div 2 \<and>
     (\<forall>i<length plotted.
        2 * i < length raw
        \<and> length (plotted ! i) = (length (raw ! (2 * i)) + 1) div 2
        \<and> (\<forall>j<length (plotted ! i).
              2 * j < length (raw ! (2 * i))
              \<and> plotted ! i ! j = raw ! (2 * i) ! (2 * j) / 0.514
              \<and> (raw ! (2 * i) ! (2 * j) = 0.514 \<longrightarrow> plotted ! i ! j = 1)))"

text \<open>
  Example inputs: a pressure-level data set and a surface data set on a grid of two rows
  and three columns with two time steps (hours 0 and 3 after the epoch), a v-wind
  file that holds the first time step only, and a u-wind file whose latitudes and
  longitudes are one-axis arrays. The levels are small integers, which every
  floating-point type holds exactly: \<open>level_cast\<close> is \<open>of_int\<close>.
\<close>

definition lat23 :: coords where
  "lat23 = Axis2 [[30, 30, 30], [31, 31, 31]]"

definition lon23 :: coords where
  "lon23 = Axis2 [[- 90, - 89, - 88], [- 90, - 89, - 88]]"

definition uwnd_nc :: "real list list list list dataset" where
  "uwnd_nc = \<lparr>time_var = [0, 3], level_var = [500], level_cast = of_int, lat_var = lat23, lon_var = lon23,
               data_var = [[[[1, 2, 3], [4, 5, 6]]], [[[0.514, 0, 1.028], [0, 0, 0]]]]\<rparr>"

definition vwnd_nc :: "real list list list list dataset" where
  "vwnd_nc = \<lparr>time_var = [0, 3], level_var = [500], level_cast = of_int, lat_var = lat23, lon_var = lon23,
               data_var = [[[[0, 0, 0], [0, 0, 0]]], [[[- 0.514, 0, 0], [0, 0, 0]]]]\<rparr>"

definition hgt_nc :: "real list list list list dataset" where
  "hgt_nc = \<lparr>time_var = [0, 3], level_var = [500], level_cast = of_int, lat_var = lat23, lon_var = lon23,
              data_var = [[[[5900, 5900, 5900], [5900, 5900, 5900]]],
                          [[[5920, 5930, 5940], [5950, 5960, 5970]]]]\<rparr>"

definition vwnd_short_nc :: "real list list list list dataset" where
  "vwnd_short_nc = \<lparr>time_var = [0], level_var = [500], level_cast = of_int, lat_var = lat23, lon_var = lon23,
                     data_var = [[[[0, 0, 0], [0, 0, 0]]]]\<rparr>"

definition uwnd_1d_nc :: "real list list list list dataset" where
  "uwnd_1d_nc = \<lparr>time_var = [0, 3], level_var = [500], level_cast = of_int, lat_var = Axis1 [30, 31],
                  lon_var = Axis1 [- 90, - 89, - 88],
                  data_var = [[[[1, 2, 3], [4, 5, 6]]], [[[0.514, 0, 1.028], [0, 0, 0]]]]\<rparr>"

definition pressure_world :: "real list list list list world" where
  "pressure_world =
     \<lparr>files = [''uwnd.nc'' \<mapsto> uwnd_nc, ''vwnd.nc'' \<mapsto> vwnd_nc, ''hgt.nc'' \<mapsto> hgt_nc,
               ''vwnd.short.nc'' \<mapsto> vwnd_short_nc, ''uwnd.1d.nc'' \<mapsto> uwnd_1d_nc],
      handles = [], figures = []\<rparr>"

definition uwnd10m_nc :: "real list list list dataset" where
  "uwnd10m_nc = \<lparr>time_var = [0, 3], level_var = [], level_cast = of_int, lat_var = lat23, lon_var = lon23,
                  data_var = [[[1, 2, 3], [4, 5, 6]], [[0.514, 0, 1.028], [0, 0, 0]]]\<rparr>"

definition vwnd10m_nc :: "real list list list dataset" where
  "vwnd10m_nc = \<lparr>time_var = [0, 3], level_var = [], level_cast = of_int, lat_var = lat23, lon_var = lon23,
                  data_var = [[[0, 0, 0], [0, 0, 0]], [[- 0.514, 0, 0], [0, 0, 0]]]\<rparr>"

definition dpt2m_nc :: "real list list list dataset" where
  "dpt2m_nc = \<lparr>time_var = [0, 3], level_var = [], level_cast = of_int, lat_var = lat23, lon_var = lon23,
                data_var = [[[280, 280, 280], [280, 280, 280]],
                            [[273.15, 292, 293], [294, 295, 296]]]\<rparr>"

definition surface_world :: "real list list list world" where
  "surface_world =
     \<lparr>files = [''uwnd.10m.nc'' \<mapsto> uwnd10m_nc, ''vwnd.10m.nc'' \<mapsto> vwnd10m_nc,
               ''dpt.2m.nc'' \<mapsto> dpt2m_nc],
      handles = [], figures = []\<rparr>"

text \<open>The two example worlds again, the v-wind and scalar-field files carrying other
  coordinate arrays and the same data.\<close>

definition pressure_world_other :: "real list list list list world" where
  "pressure_world_other =
     \<lparr>files = [''uwnd.nc'' \<mapsto> uwnd_nc,
               ''vwnd.nc'' \<mapsto> vwnd_nc\<lparr>time_var := [99], level_var := [1],
                                       lat_var := Axis1 [], lon_var := Axis1 []\<rparr>,
               ''hgt.nc'' \<mapsto> hgt_nc\<lparr>time_var := [], level_var := [850, 500],
                                     lat_var := Axis1 [0], lon_var := Axis1 [0]\<rparr>],
      handles = [], figures = []\<rparr>"

definition surface_world_other :: "real list list list world" where
  "surface_world_other =
     \<lparr>files = [''uwnd.10m.nc'' \<mapsto> uwnd10m_nc,
               ''vwnd.10m.nc'' \<mapsto> vwnd10m_nc\<lparr>time_var := [99], lat_var := Axis1 [],
                                             lon_var := Axis1 []\<rparr>,
               ''dpt.2m.nc'' \<mapsto> dpt2m_nc\<lparr>time_var := [], lat_var := Axis1 [0],
                                         lon_var := Axis1 [0]\<rparr>],
      handles = [], figures = []\<rparr>"

section \<open>Calendar lemmas\<close>

text \<open>\<^verbatim>\<open>_ord2ymd\<close> inverts \<^verbatim>\<open>_ymd2ord\<close> on every ordinal from 1 on, and yields a month
  and a day that exist.\<close>

lemma fst_month_and_day: "fst (month_and_day y l n) = y"
  by (simp add: month_and_day_def Let_def)

lemma month_estimate:
  fixes n :: int
  assumes "0 \<le> n" "n \<le> 364"
  obtains k where "(n + 50) div 32 = k" "1 \<le> k" "k \<le> 12" "32 * k \<le> n + 50" "n + 50 < 32 * k + 32"
proof -
  have "32 * ((n + 50) div 32) \<le> n + 50" "n + 50 < 32 * ((n + 50) div 32) + 32" by linarith+
  moreover from this have "1 \<le> (n + 50) div 32" "(n + 50) div 32 \<le> 12" using assms by linarith+
  ultimately show ?thesis using that by blast
qed

lemma month_and_day_correct:
  assumes "0 \<le> n" "n \<le> 364"
  shows "\<exists>mo d. month_and_day y l n = (y, mo, d) \<and> 1 \<le> mo \<and> mo \<le> 12 \<and> 1 \<le> d
           \<and> d \<le> DAYS_IN_MONTH ! nat mo + (if mo = 2 \<and> l then 1 else 0)
           \<and> DAYS_BEFORE_MONTH ! nat mo + (if mo > 2 \<and> l then 1 else 0) + d = n + 1"
proof -
  from assms obtain k where k: "(n + 50) div 32 = k" "1 \<le> k" "k \<le> 12"
      "32 * k \<le> n + 50" "n + 50 < 32 * k + 32"
    by (rule month_estimate)
  from k(2,3) consider "k = 1" | "k = 2" | "k = 3" | "k = 4" | "k = 5" | "k = 6"
    | "k = 7" | "k = 8" | "k = 9" | "k = 10" | "k = 11" | "k = 12"
    by atomize_elim arith
  then show ?thesis
  proof cases
    case 1 with k assms show ?thesis
      by (auto simp: month_and_day_def Let_def DAYS_BEFORE_MONTH_def DAYS_IN_MONTH_def)
  next
    case 2 with k assms show ?thesis
      by (auto simp: month_and_day_def Let_def DAYS_BEFORE_MONTH_def DAYS_IN_MONTH_def)
  next
    case 3 with k assms show ?thesis
      by (auto simp: month_and_day_def Let_def DAYS_BEFORE_MONTH_def DAYS_IN_MONTH_def)
  next
    case 4 with k assms show ?thesis
      by (auto simp: month_and_day_def Let_def DAYS_BEFORE_MONTH_def DAYS_IN_MONTH_def)
  next
    case 5 with k assms show ?thesis
      by (auto simp: month_and_day_def Let_def DAYS_BEFORE_MONTH_def DAYS_IN_MONTH_def)
  next
    case 6 with k assms show ?thesis
      by (auto simp: month_and_day_def Let_def DAYS_BEFORE_MONTH_def DAYS_IN_MONTH_def)
  next
    case 7 with k assms show ?thesis
      by (auto simp: month_and_day_def Let_def DAYS_BEFORE_MONTH_def DAYS_IN_MONTH_def)
  next
    case 8 with k assms show ?thesis
      by (auto simp: month_and_day_def Let_def DAYS_BEFORE_MONTH_def DAYS_IN_MONTH_def)
  next
    case 9 with k assms show ?thesis
      by (auto simp: month_and_day_def Let_def DAYS_BEFORE_MONTH_def DAYS_IN_MONTH_def)
  next
    case 10 with k assms show ?thesis
      by (auto simp: month_and_day_def Let_def DAYS_BEFORE_MONTH_def DAYS_IN_MONTH_def)
  next
    case 11 with k assms show ?thesis
      by (auto simp: month_and_day_def Let_def DAYS_BEFORE_MONTH_def DAYS_IN_MONTH_def)
  next
    case 12 with k assms show ?thesis
      by (auto simp: month_and_day_def Let_def DAYS_BEFORE_MONTH_def DAYS_IN_MONTH_def)
  qed
qed



lemma year_split:
  fixes m :: int
  assumes "0 \<le> m"
  obtains a b c e r where
    "m div 146097 = a" "m mod 146097 div 36524 = b" "m mod 146097 mod 36524 div 1461 = c"
    "m mod 146097 mod 36524 mod 1461 div 365 = e" "m mod 146097 mod 36524 mod 1461 mod 365 = r"
    "m = 146097 * a + 36524 * b + 1461 * c + 365 * e + r"
    "0 \<le> a" "0 \<le> b" "0 \<le> c" "0 \<le> e" "0 \<le> r" "r < 365"
    "36524 * b + 1461 * c + 365 * e + r < 146097"
    "1461 * c + 365 * e + r < 36524"
    "365 * e + r < 1461"
proof -
  define a where "a = m div 146097"
  define r1 where "r1 = m mod 146097"
  define b where "b = r1 div 36524"
  define r2 where "r2 = r1 mod 36524"
  define c where "c = r2 div 1461"
  define r3 where "r3 = r2 mod 1461"
  define e where "e = r3 div 365"
  define r where "r = r3 mod 365"
  have e1: "m = 146097 * a + r1" and b1: "0 \<le> r1" "r1 < 146097"
    by (simp_all add: a_def r1_def)
  have e2: "r1 = 36524 * b + r2" and b2: "0 \<le> r2" "r2 < 36524"
    by (simp_all add: b_def r2_def)
  have e3: "r2 = 1461 * c + r3" and b3: "0 \<le> r3" "r3 < 1461"
    by (simp_all add: c_def r3_def)
  have e4: "r3 = 365 * e + r" and b4: "0 \<le> r" "r < 365"
    by (simp_all add: e_def r_def)
  have p: "0 \<le> a" "0 \<le> b" "0 \<le> c" "0 \<le> e"
    using assms b1 b2 b3 by (simp_all add: a_def b_def c_def e_def pos_imp_zdiv_nonneg_iff)
  show ?thesis
  proof (rule that[of a b c e r])
    show "m div 146097 = a" by (simp only: a_def)
    show "m mod 146097 div 36524 = b" by (simp only: b_def r1_def)
    show "m mod 146097 mod 36524 div 1461 = c" by (simp only: c_def r2_def r1_def)
    show "m mod 146097 mod 36524 mod 1461 div 365 = e" by (simp only: e_def r3_def r2_def r1_def)
    show "m mod 146097 mod 36524 mod 1461 mod 365 = r" by (simp only: r_def r3_def r2_def r1_def)
    show "m = 146097 * a + 36524 * b + 1461 * c + 365 * e + r" using e1 e2 e3 e4 by linarith
    show "36524 * b + 1461 * c + 365 * e + r < 146097" using e2 e3 e4 b1 by linarith
    show "1461 * c + 365 * e + r < 36524" using e3 e4 b2 by linarith
    show "365 * e + r < 1461" using e4 b3 by linarith
  qed (use p b4 in simp_all)
qed



lemma days_before_year_split:
  fixes a b c e :: int
  assumes "0 \<le> b" "b \<le> 3" "0 \<le> c" "c \<le> 24" "0 \<le> e" "e \<le> 3"
  shows "days_before_year (a * 400 + 1 + b * 100 + c * 4 + e)
         = 146097 * a + 36524 * b + 1461 * c + 365 * e"
proof -
  define y where "y = a * 400 + b * 100 + c * 4 + e"
  have 4: "y div 4 = 100 * a + 25 * b + c" using assms unfolding y_def by linarith
  have 100: "y div 100 = 4 * a + b" using assms unfolding y_def by linarith
  have 400: "y div 400 = a" using assms unfolding y_def by linarith
  have "a * 400 + 1 + b * 100 + c * 4 + e - 1 = y" by (simp add: y_def)
  then have "days_before_year (a * 400 + 1 + b * 100 + c * 4 + e) = y * 365 + y div 4 - y div 100 + y div 400"
    by (simp only: days_before_year_def Let_def)
  also have "\<dots> = 146097 * a + 36524 * b + 1461 * c + 365 * e"
    unfolding 4 100 400 by (simp add: y_def)
  finally show ?thesis .
qed



lemma mod_zero_in_range:
  fixes x k :: int
  assumes "0 < x" "x \<le> k"
  shows "x mod k = 0 \<longleftrightarrow> x = k"
proof
  assume "x mod k = 0"
  show "x = k"
  proof (rule ccontr)
    assume "x \<noteq> k"
    then have "x < k" using assms by simp
    then have "x mod k = x" using assms by simp
    with \<open>x mod k = 0\<close> assms show False by simp
  qed
qed simp

lemma is_leap_split:
  fixes a b c e :: int
  assumes "0 \<le> b" "b \<le> 3" "0 \<le> c" "c \<le> 24" "0 \<le> e" "e \<le> 3"
  shows "is_leap (a * 400 + 1 + b * 100 + c * 4 + e) \<longleftrightarrow> (e = 3 \<and> (c \<noteq> 24 \<or> b = 3))"
proof -
  define y where "y = a * 400 + 1 + b * 100 + c * 4 + e"
  have "y = (e + 1) + 4 * (100 * a + 25 * b + c)" by (simp add: y_def)
  then have "y mod 4 = (e + 1) mod 4" by (simp only: mod_mult_self2)
  also have "\<dots> = 0 \<longleftrightarrow> e + 1 = 4" using assms by (intro mod_zero_in_range) simp_all
  finally have 4: "y mod 4 = 0 \<longleftrightarrow> e = 3" by linarith
  have "y = (4 * c + e + 1) + 100 * (4 * a + b)" by (simp add: y_def)
  then have "y mod 100 = (4 * c + e + 1) mod 100" by (simp only: mod_mult_self2)
  also have "\<dots> = 0 \<longleftrightarrow> 4 * c + e + 1 = 100" using assms by (intro mod_zero_in_range) linarith+
  finally have 100: "y mod 100 = 0 \<longleftrightarrow> (c = 24 \<and> e = 3)" using assms by linarith
  have "y = (100 * b + 4 * c + e + 1) + 400 * a" by (simp add: y_def)
  then have "y mod 400 = (100 * b + 4 * c + e + 1) mod 400" by (simp only: mod_mult_self2)
  also have "\<dots> = 0 \<longleftrightarrow> 100 * b + 4 * c + e + 1 = 400" using assms by (intro mod_zero_in_range) linarith+
  finally have 400: "y mod 400 = 0 \<longleftrightarrow> (b = 3 \<and> c = 24 \<and> e = 3)" using assms by linarith
  show ?thesis
    unfolding is_leap_def y_def[symmetric] 4 100 400 by blast
qed


lemma ord2ymd_correct:
  assumes "1 \<le> n"
  shows "\<exists>y mo d. ord2ymd n = (y, mo, d) \<and> ymd2ord y mo d = n \<and> 1 \<le> mo \<and> mo \<le> 12 \<and> 1 \<le> d
           \<and> d \<le> DAYS_IN_MONTH ! nat mo + (if mo = 2 \<and> is_leap y then 1 else 0)"
proof -
  have "0 \<le> n - 1" using assms by simp
  then obtain a b c e r where ids:
    "(n - 1) div 146097 = a" "(n - 1) mod 146097 div 36524 = b"
    "(n - 1) mod 146097 mod 36524 div 1461 = c"
    "(n - 1) mod 146097 mod 36524 mod 1461 div 365 = e"
    "(n - 1) mod 146097 mod 36524 mod 1461 mod 365 = r"
    and sum: "n - 1 = 146097 * a + 36524 * b + 1461 * c + 365 * e + r"
    and pos: "0 \<le> a" "0 \<le> b" "0 \<le> c" "0 \<le> e" "0 \<le> r" "r < 365"
    and bnd: "36524 * b + 1461 * c + 365 * e + r < 146097"
      "1461 * c + 365 * e + r < 36524" "365 * e + r < 1461"
    by (rule year_split)
  have unfold: "ord2ymd n =
     (if e = 4 \<or> b = 4 then (a * 400 + 1 + b * 100 + c * 4 + e - 1, 12, 31)
      else month_and_day (a * 400 + 1 + b * 100 + c * 4 + e) (e = 3 \<and> (c \<noteq> 24 \<or> b = 3)) r)"
    by (simp only: ord2ymd_def Let_def ids)
  have ub: "b \<le> 4" "c \<le> 24" "e \<le> 4" using pos bnd by linarith+
  consider (b4) "b = 4" | (e4) "b \<le> 3" "e = 4" | (reg) "b \<le> 3" "e \<le> 3"
    using ub by atomize_elim linarith
  then show ?thesis
  proof cases
    case b4
    then have z: "c = 0" "e = 0" "r = 0" using pos bnd by linarith+
    define y where "y = a * 400 + 1 + 3 * 100 + 24 * 4 + 3"
    have u: "ord2ymd n = (y, 12, 31)"
      unfolding unfold using b4 z by (simp add: y_def)
    have d: "days_before_year y = 146097 * a + 36524 * 3 + 1461 * 24 + 365 * 3"
      unfolding y_def by (rule days_before_year_split) simp_all
    have l: "is_leap y"
      unfolding y_def by (subst is_leap_split) simp_all
    have "ymd2ord y 12 31 = n"
      using b4 z sum by (simp add: ymd2ord_def d days_before_month_def l DAYS_BEFORE_MONTH_def)
    then show ?thesis using u by (simp add: DAYS_IN_MONTH_def)
  next
    case e4
    then have z: "r = 0" "c \<le> 23" using pos bnd by linarith+
    define y where "y = a * 400 + 1 + b * 100 + c * 4 + 3"
    have u: "ord2ymd n = (y, 12, 31)"
      unfolding unfold using e4 z by (simp add: y_def)
    have d: "days_before_year y = 146097 * a + 36524 * b + 1461 * c + 365 * 3"
      unfolding y_def by (rule days_before_year_split) (use pos e4 z in simp_all)
    have l: "is_leap y"
      unfolding y_def by (subst is_leap_split) (use pos e4 z in auto)
    have "ymd2ord y 12 31 = n"
      using e4 z sum by (simp add: ymd2ord_def d days_before_month_def l DAYS_BEFORE_MONTH_def)
    then show ?thesis using u by (simp add: DAYS_IN_MONTH_def)
  next
    case reg
    let ?y = "a * 400 + 1 + b * 100 + c * 4 + e"
    let ?l = "e = 3 \<and> (c \<noteq> 24 \<or> b = 3)"
    have d: "days_before_year ?y = 146097 * a + 36524 * b + 1461 * c + 365 * e"
      by (rule days_before_year_split) (use pos reg ub in simp_all)
    have l: "is_leap ?y \<longleftrightarrow> ?l"
      by (rule is_leap_split) (use pos reg ub in simp_all)
    from pos have "0 \<le> r" "r \<le> 364" by simp_all
    from month_and_day_correct[OF this, of ?y ?l]
    obtain mo dd where md: "month_and_day ?y ?l r = (?y, mo, dd)" "1 \<le> mo" "mo \<le> 12" "1 \<le> dd"
      "dd \<le> DAYS_IN_MONTH ! nat mo + (if mo = 2 \<and> ?l then 1 else 0)"
      "DAYS_BEFORE_MONTH ! nat mo + (if mo > 2 \<and> ?l then 1 else 0) + dd = r + 1"
      by blast
    have u: "ord2ymd n = (?y, mo, dd)" unfolding unfold using reg md(1) by simp
    have "ymd2ord ?y mo dd = n"
      unfolding ymd2ord_def d days_before_month_def l using md(6) sum by linarith
    then show ?thesis using u md(2-5) l by auto
  qed
qed

text \<open>Ordinals before that of the epoch lie in years before 1800.\<close>

lemma year_of_ordinal_cases:
  "fst (ord2ymd n) = (n - 1) div 146097 * 400 + 1 + (n - 1) mod 146097 div 36524 * 100
       + (n - 1) mod 146097 mod 36524 div 1461 * 4
       + (n - 1) mod 146097 mod 36524 mod 1461 div 365 - 1
   \<or> fst (ord2ymd n) = (n - 1) div 146097 * 400 + 1 + (n - 1) mod 146097 div 36524 * 100
       + (n - 1) mod 146097 mod 36524 div 1461 * 4
       + (n - 1) mod 146097 mod 36524 mod 1461 div 365"
  unfolding ord2ymd_def Let_def
  by (simp only: fst_month_and_day fst_conv if_distrib[of fst] if_split_eq1 split: if_split) blast

lemma ord2ymd_year_before:
  assumes "1 \<le> n" "n \<le> 657071"
  shows "fst (ord2ymd n) \<le> 1799"
proof -
  have "0 \<le> n - 1" using assms by simp
  then obtain a b c e r where ids:
    "(n - 1) div 146097 = a" "(n - 1) mod 146097 div 36524 = b"
    "(n - 1) mod 146097 mod 36524 div 1461 = c"
    "(n - 1) mod 146097 mod 36524 mod 1461 div 365 = e"
    "(n - 1) mod 146097 mod 36524 mod 1461 mod 365 = r"
    and sum: "n - 1 = 146097 * a + 36524 * b + 1461 * c + 365 * e + r"
    and pos: "0 \<le> a" "0 \<le> b" "0 \<le> c" "0 \<le> e" "0 \<le> r" "r < 365"
    and bnd: "36524 * b + 1461 * c + 365 * e + r < 146097"
      "1461 * c + 365 * e + r < 36524" "365 * e + r < 1461"
    by (rule year_split)
  have ub: "a \<le> 4" "b \<le> 4" "c \<le> 24" "e \<le> 4" using pos bnd sum assms by linarith+
  have "a * 400 + 1 + b * 100 + c * 4 + e \<le> 1799"
  proof (cases "a \<le> 3")
    case True then show ?thesis using ub by linarith
  next
    case False
    then have a: "a = 4" using ub by linarith
    have b1: "b \<le> 1" using sum a assms pos by linarith
    show ?thesis
    proof (cases "b \<le> 0")
      case True then show ?thesis using a ub by linarith
    next
      case False
      then have b: "b = 1" using b1 by linarith
      show ?thesis
      proof (cases "c \<le> 23")
        case True then show ?thesis using a b ub by linarith
      next
        case False
        then have c: "c = 24" using ub by linarith
        have "e \<le> 2" using sum a b c assms pos by linarith
        then show ?thesis using a b c by linarith
      qed
    qed
  qed
  then show ?thesis using year_of_ordinal_cases[of n] unfolding ids by linarith
qed

text \<open>Ordinals from that of 1000-01-01 on lie in years from 1000 on.\<close>

lemma ord2ymd_year_from_1000:
  assumes "364878 \<le> n"
  shows "1000 \<le> fst (ord2ymd n)"
proof -
  have "0 \<le> n - 1" using assms by simp
  then obtain a b c e r where ids:
    "(n - 1) div 146097 = a" "(n - 1) mod 146097 div 36524 = b"
    "(n - 1) mod 146097 mod 36524 div 1461 = c"
    "(n - 1) mod 146097 mod 36524 mod 1461 div 365 = e"
    "(n - 1) mod 146097 mod 36524 mod 1461 mod 365 = r"
    and sum: "n - 1 = 146097 * a + 36524 * b + 1461 * c + 365 * e + r"
    and pos: "0 \<le> a" "0 \<le> b" "0 \<le> c" "0 \<le> e" "0 \<le> r" "r < 365"
    and bnd: "36524 * b + 1461 * c + 365 * e + r < 146097"
      "1461 * c + 365 * e + r < 36524" "365 * e + r < 1461"
    by (rule year_split)
  have unfold: "fst (ord2ymd n) =
     (if e = 4 \<or> b = 4 then a * 400 + 1 + b * 100 + c * 4 + e - 1
      else a * 400 + 1 + b * 100 + c * 4 + e)"
    by (simp only: ord2ymd_def Let_def ids fst_month_and_day fst_conv if_distrib[of fst])
  have ub: "b \<le> 4" "c \<le> 24" "e \<le> 4" using pos bnd by linarith+
  have a2: "2 \<le> a" using sum assms bnd by linarith
  show ?thesis
  proof (cases "3 \<le> a")
    case True
    then show ?thesis unfolding unfold using pos by (simp split: if_splits)
  next
    case False
    then have a: "a = 2" using a2 by linarith
    have b1: "1 \<le> b" using sum a assms bnd by linarith
    show ?thesis
    proof (cases "2 \<le> b")
      case True
      then show ?thesis unfolding unfold using a pos by (simp split: if_splits)
    next
      case False
      then have b: "b = 1" using b1 by linarith
      have c: "c = 24" using sum a b assms bnd ub by linarith
      have e3: "3 \<le> e" using sum a b c assms pos by linarith
      have "e \<le> 3" using bnd(2) c pos by linarith
      then have e: "e = 3" using e3 by linarith
      show ?thesis unfolding unfold by (simp add: a b c e)
    qed
  qed
qed

section \<open>The timestamp decoder\<close>

lemma start_fields:
  "year start = 1800" "month start = 1" "day start = 1"
  "hour start = 0" "minute start = 0" "second start = 0"
  by (simp_all add: start_def)

lemma toordinal_start: "toordinal start = 657072"
  by (simp add: toordinal_def start_def ymd2ord_def days_before_year_def
      days_before_month_def DAYS_BEFORE_MONTH_def)

lemma ord2ymd_epoch: "ord2ymd 657072 = (1800, 1, 1)"
  by (simp add: ord2ymd_def month_and_day_def Let_def DAYS_BEFORE_MONTH_def DAYS_IN_MONTH_def)

lemma comprehension_all_Inr:
  "(\<And>x. x \<in> set xs \<Longrightarrow> f x = Inr (g x)) \<Longrightarrow> comprehension f xs = Inr (map g xs)"
  by (induction xs) simp_all

lemma comprehension_map_rel:
  "(\<And>x. x \<in> set xs \<Longrightarrow> \<exists>y. f (h x) = Inr y \<and> P x y) \<Longrightarrow>
     \<exists>ys. comprehension f (map h xs) = Inr ys \<and> list_all2 P xs ys"
proof (induction xs)
  case Nil
  then show ?case by simp
next
  case (Cons x xs)
  from Cons.prems obtain y where y: "f (h x) = Inr y" "P x y" by auto
  from Cons obtain ys where ys: "comprehension f (map h xs) = Inr ys" "list_all2 P xs ys" by auto
  show ?case using y ys by simp
qed

lemma timedelta_hours_in_range:
  assumes "-15769704 \<le> h" "h \<le> 71879711"
  shows "timedelta_hours h = Inr \<lparr>days = h div 24, seconds = (h mod 24) * 3600\<rparr>"
proof -
  have "\<bar>h div 24\<bar> \<le> 999999999" using assms by linarith
  then show ?thesis by (simp add: timedelta_hours_def Let_def)
qed

lemma datetime_add_start:
  assumes "-15769704 \<le> h" "h \<le> 71879711"
  shows "\<exists>d. datetime_add start \<lparr>days = h div 24, seconds = (h mod 24) * 3600\<rparr> = Inr d
           \<and> (year d, month d, day d) = ord2ymd (657072 + h div 24)
           \<and> hour d = h mod 24 \<and> minute d = 0 \<and> second d = 0"
proof -
  have s: "0 \<le> h mod 24" "h mod 24 < 24" by simp_all
  have d: "(h mod 24) * 3600 div 86400 = 0" using s by (simp add: div_pos_pos_trivial)
  have m: "(h mod 24) * 3600 mod 86400 = (h mod 24) * 3600" using s by simp
  have r: "0 < 657072 + h div 24" "657072 + h div 24 \<le> 3652059" "\<bar>657072 + h div 24\<bar> \<le> 999999999"
    using assms by linarith+
  show ?thesis
    using r by (simp add: datetime_add_def toordinal_start start_fields d m Let_def MAXORDINAL_def split: prod.splits)
qed

lemma datetime_add_start_stepped:
  assumes "-15769704 \<le> h" "h \<le> 71879711"
  shows "\<exists>d. datetime_add start \<lparr>days = h div 24, seconds = (h mod 24) * 3600\<rparr> = Inr d
           \<and> stepped h d \<and> (year d, month d, day d) = ord2ymd (657072 + h div 24)
           \<and> hour d = h mod 24
           \<and> (h < 0 \<longrightarrow> datetime_lt d start) \<and> (h = 0 \<longrightarrow> d = start)"
proof -
  from datetime_add_start[OF assms] obtain d where
    d: "datetime_add start \<lparr>days = h div 24, seconds = (h mod 24) * 3600\<rparr> = Inr d"
    and ymd: "(year d, month d, day d) = ord2ymd (657072 + h div 24)"
    and hms: "hour d = h mod 24" "minute d = 0" "second d = 0" by blast
  have pos: "1 \<le> 657072 + h div 24" using assms by linarith
  from ord2ymd_correct[OF pos] ymd
  have ord: "ymd2ord (year d) (month d) (day d) = 657072 + h div 24"
    and valid: "1 \<le> month d" "month d \<le> 12" "1 \<le> day d"
      "day d \<le> DAYS_IN_MONTH ! nat (month d) + (if month d = 2 \<and> is_leap (year d) then 1 else 0)"
    by auto
  have "h div 24 * 24 + h mod 24 = h" by simp
  then have "toordinal d * 24 + hour d = toordinal start * 24 + h"
    unfolding toordinal_start hms by (simp add: toordinal_def ord)
  then have 1: "stepped h d" using valid hms by (simp add: stepped_def)
  have 2: "datetime_lt d start" if "h < 0"
  proof -
    have "657072 + h div 24 \<le> 657071" using that by linarith
    from ord2ymd_year_before[OF pos this] ymd have "year d \<le> 1799"
      by (metis fst_conv)
    then show ?thesis by (simp add: datetime_lt_def start_fields)
  qed
  have 3: "d = start" if "h = 0"
    using that ymd hms by (simp add: ord2ymd_epoch start_def)
  show ?thesis using d 1 2 3 ymd hms(1) by blast
qed

lemma offset_in_range:
  assumes "\<And>x. x \<in> set (time_var file) \<Longrightarrow> -15769704 \<le> py_int x \<and> py_int x \<le> 71879711"
  shows "\<exists>offs. offset file = Inr offs \<and>
           list_all2 (\<lambda>x d. stepped (py_int x) d
                          \<and> (year d, month d, day d) = ord2ymd (657072 + py_int x div 24)
                          \<and> hour d = py_int x mod 24
                          \<and> (py_int x < 0 \<longrightarrow> datetime_lt d start)
                          \<and> (py_int x = 0 \<longrightarrow> d = start)) (time_var file) offs"
proof -
  let ?td = "\<lambda>x. \<lparr>days = py_int x div 24, seconds = (py_int x mod 24) * 3600\<rparr>"
  have 1: "comprehension (\<lambda>i. timedelta_hours (py_int i)) (time_var file) = Inr (map ?td (time_var file))"
    by (rule comprehension_all_Inr) (simp add: timedelta_hours_in_range assms)
  have "\<exists>offs. comprehension (\<lambda>x. datetime_add start x) (map ?td (time_var file)) = Inr offs \<and>
           list_all2 (\<lambda>x d. stepped (py_int x) d
                          \<and> (year d, month d, day d) = ord2ymd (657072 + py_int x div 24)
                          \<and> hour d = py_int x mod 24
                          \<and> (py_int x < 0 \<longrightarrow> datetime_lt d start)
                          \<and> (py_int x = 0 \<longrightarrow> d = start)) (time_var file) offs"
    by (rule comprehension_map_rel) (use assms datetime_add_start_stepped in blast)
  then show ?thesis by (simp add: offset_def 1)
qed


lemma strftime_8760:
  assumes "(year d, month d, day d) = ord2ymd (657072 + 8760 div 24)"
    and "hour d = 8760 mod 24" and "stepped 8760 d"
  shows "strftime d = ''1801-01-01 00:00:00''"
proof -
  have "ord2ymd (657072 + 8760 div 24) = (1801, 1, 1)"
    by (simp add: ord2ymd_def month_and_day_def Let_def DAYS_BEFORE_MONTH_def DAYS_IN_MONTH_def)
  with assms(1) have "year d = 1801" "month d = 1" "day d = 1" by simp_all
  moreover have "hour d = 0" "minute d = 0" "second d = 0"
    using assms(2,3) by (simp_all add: stepped_def)
  ultimately show ?thesis
    by (simp add: strftime_def year_text_def pad2_def pad4_def digit_def)
qed

lemma strftime_start: "strftime start = ''1800-01-01 00:00:00''"
  by (simp add: strftime_def year_text_def start_def pad2_def pad4_def digit_def)

lemma comprehension_Inr_D:
  "comprehension f xs = Inr ys \<Longrightarrow> list_all2 (\<lambda>x y. f x = Inr y) xs ys"
  by (induction xs arbitrary: ys) (auto split: sum.splits)

lemma comprehension_Inl_D:
  "comprehension f xs = Inl e \<Longrightarrow> \<exists>x\<in>set xs. f x = Inl e"
  by (induction xs) (auto split: sum.splits)

lemma timedelta_hours_Inl: "timedelta_hours h = Inl e \<Longrightarrow> e = OverflowError"
  by (simp add: timedelta_hours_def Let_def split: if_splits)

lemma datetime_add_Inl: "datetime_add d t = Inl e \<Longrightarrow> e = OverflowError"
  by (simp add: datetime_add_def Let_def split: if_splits prod.splits)

lemma offset_Inl: "offset file = Inl e \<Longrightarrow> e = OverflowError"
  unfolding offset_def
  by (auto split: sum.splits dest!: comprehension_Inl_D timedelta_hours_Inl datetime_add_Inl)

lemma added_in_range:
  assumes "timedelta_hours h = Inr t" "datetime_add start t = Inr d"
  shows "-15769704 \<le> h \<and> h \<le> 71879711"
proof -
  from assms(1) have t: "t = \<lparr>days = h div 24, seconds = (h mod 24) * 3600\<rparr>"
    by (simp add: timedelta_hours_def Let_def split: if_splits)
  have s: "0 \<le> h mod 24" "h mod 24 < 24" by simp_all
  have z: "(h mod 24) * 3600 div 86400 = 0" using s by (simp add: div_pos_pos_trivial)
  from assms(2) have "0 < 657072 + h div 24 \<and> 657072 + h div 24 \<le> 3652059"
    unfolding t
    by (simp add: datetime_add_def toordinal_start start_fields z Let_def MAXORDINAL_def
        split: if_splits)
  then show ?thesis by linarith
qed

lemma offset_Inr_in_range:
  assumes "offset file = Inr offs" "x \<in> set (time_var file)"
  shows "-15769704 \<le> py_int x \<and> py_int x \<le> 71879711"
proof -
  from assms(1) obtain delta where
    1: "comprehension (\<lambda>i. timedelta_hours (py_int i)) (time_var file) = Inr delta"
    and 2: "comprehension (\<lambda>x. datetime_add start x) delta = Inr offs"
    by (auto simp: offset_def split: sum.splits)
  from comprehension_Inr_D[OF 1] comprehension_Inr_D[OF 2]
  have a: "list_all2 (\<lambda>i t. timedelta_hours (py_int i) = Inr t) (time_var file) delta"
    and b: "list_all2 (\<lambda>t d. datetime_add start t = Inr d) delta offs"
    by simp_all
  from assms(2) obtain k where k: "k < length (time_var file)" "time_var file ! k = x"
    by (auto simp: in_set_conv_nth)
  have "timedelta_hours (py_int x) = Inr (delta ! k)"
    using a k by (auto simp: list_all2_conv_all_nth)
  moreover have "datetime_add start (delta ! k) = Inr (offs ! k)"
    using a b k by (auto simp: list_all2_conv_all_nth)
  ultimately show ?thesis by (rule added_in_range)
qed

lemma time_convert_out_of_range:
  assumes "\<exists>x\<in>set (time_var file). py_int x < -15769704 \<or> 71879711 < py_int x"
  shows "time_convert file = Inl OverflowError"
proof (cases "offset file")
  case (Inl e)
  then show ?thesis using offset_Inl[OF Inl] by (simp add: time_convert_def)
next
  case (Inr offs)
  with assms offset_Inr_in_range[OF Inr] show ?thesis by force
qed

lemma strftime_four_digit_year:
  assumes "1000 \<le> year d" "minute d = 0" "second d = 0"
  shows "strftime d = pad4 (year d) @ ''-'' @ pad2 (month d) @ ''-'' @ pad2 (day d) @ '' ''
                        @ pad2 (hour d) @ '':00:00''"
  using assms by (simp add: strftime_def year_text_def pad2_def digit_def)

text \<open>
  Claim C4, amended. For hour offsets that are numbers (not NaN or an infinity):
  \<^verbatim>\<open>time_convert\<close> returns one string per offset, in the order of the input, when every
  offset, truncated to an integer, lies between -15769704 and 71879711 hours (the dates
  from 0001-01-01 to 9999-12-31), and raises \<^verbatim>\<open>OverflowError\<close> when one of them does not.
  The i-th string is the \<^verbatim>\<open>strftime\<close> of the date and hour that lie the truncated i-th
  offset after 1800-01-01 00:00:00, with minute and second zero; from -7012656 hours on
  (the years from 1000 on) it is the text YYYY-MM-DD HH:00:00 with the year in four
  digits. An empty time axis yields the empty sequence, the offset 0 yields
  1800-01-01 00:00:00 and the offset 8760 yields 1801-01-01 00:00:00.
\<close>

theorem time_convert_decodes:
  "((\<forall>x \<in> set (time_var file). -15769704 \<le> py_int x \<and> py_int x \<le> 71879711) \<longrightarrow>
      (\<exists>offs. offset file = Inr offs \<and> time_convert file = Inr (map strftime offs)
           \<and> length offs = length (time_var file)
           \<and> (time_var file = [] \<longrightarrow> time_convert file = Inr [])
           \<and> (\<forall>i < length offs.
                 stepped (py_int (time_var file ! i)) (offs ! i)
                 \<and> (-7012656 \<le> py_int (time_var file ! i) \<longrightarrow>
                       1000 \<le> year (offs ! i)
                       \<and> strftime (offs ! i) =
                           pad4 (year (offs ! i)) @ ''-'' @ pad2 (month (offs ! i)) @ ''-''
                           @ pad2 (day (offs ! i)) @ '' '' @ pad2 (hour (offs ! i)) @ '':00:00'')
                 \<and> (time_var file ! i = 0 \<longrightarrow> strftime (offs ! i) = ''1800-01-01 00:00:00'')
                 \<and> (time_var file ! i = 8760 \<longrightarrow> strftime (offs ! i) = ''1801-01-01 00:00:00''))))
   \<and> ((\<exists>x \<in> set (time_var file). py_int x < -15769704 \<or> 71879711 < py_int x) \<longrightarrow>
         time_convert file = Inl OverflowError)"
proof (intro conjI impI)
  assume range: "\<forall>x \<in> set (time_var file). -15769704 \<le> py_int x \<and> py_int x \<le> 71879711"
  have "\<exists>offs. offset file = Inr offs \<and>
           list_all2 (\<lambda>x d. stepped (py_int x) d
                          \<and> (year d, month d, day d) = ord2ymd (657072 + py_int x div 24)
                          \<and> hour d = py_int x mod 24
                          \<and> (py_int x < 0 \<longrightarrow> datetime_lt d start)
                          \<and> (py_int x = 0 \<longrightarrow> d = start)) (time_var file) offs"
    by (rule offset_in_range) (use range in blast)
  then obtain offs where
    o: "offset file = Inr offs"
    and r: "list_all2 (\<lambda>x d. stepped (py_int x) d
                          \<and> (year d, month d, day d) = ord2ymd (657072 + py_int x div 24)
                          \<and> hour d = py_int x mod 24
                          \<and> (py_int x < 0 \<longrightarrow> datetime_lt d start)
                          \<and> (py_int x = 0 \<longrightarrow> d = start)) (time_var file) offs"
    by blast
  have len: "length offs = length (time_var file)" using r by (simp add: list_all2_lengthD)
  have tc: "time_convert file = Inr (map strftime offs)" by (simp add: time_convert_def o)
  have el: "stepped (py_int (time_var file ! i)) (offs ! i)
                 \<and> (-7012656 \<le> py_int (time_var file ! i) \<longrightarrow>
                       1000 \<le> year (offs ! i)
                       \<and> strftime (offs ! i) =
                           pad4 (year (offs ! i)) @ ''-'' @ pad2 (month (offs ! i)) @ ''-''
                           @ pad2 (day (offs ! i)) @ '' '' @ pad2 (hour (offs ! i)) @ '':00:00'')
                 \<and> (time_var file ! i = 0 \<longrightarrow> strftime (offs ! i) = ''1800-01-01 00:00:00'')
                 \<and> (time_var file ! i = 8760 \<longrightarrow> strftime (offs ! i) = ''1801-01-01 00:00:00'')"
    if "i < length offs" for i
  proof -
    from r that len have
      s: "stepped (py_int (time_var file ! i)) (offs ! i)"
      and y: "(year (offs ! i), month (offs ! i), day (offs ! i))
                = ord2ymd (657072 + py_int (time_var file ! i) div 24)"
      and h: "hour (offs ! i) = py_int (time_var file ! i) mod 24"
      and z: "py_int (time_var file ! i) = 0 \<longrightarrow> offs ! i = start"
      by (simp_all add: list_all2_conv_all_nth)
    have 0: "strftime (offs ! i) = ''1800-01-01 00:00:00''" if "time_var file ! i = 0"
      using z that by (simp add: py_int_def strftime_start)
    have 1: "strftime (offs ! i) = ''1801-01-01 00:00:00''" if "time_var file ! i = 8760"
    proof -
      have "py_int (time_var file ! i) = 8760" using that by (simp add: py_int_def)
      with s y h show ?thesis by (intro strftime_8760) simp_all
    qed
    have 2: "1000 \<le> year (offs ! i)
             \<and> strftime (offs ! i) =
                 pad4 (year (offs ! i)) @ ''-'' @ pad2 (month (offs ! i)) @ ''-''
                 @ pad2 (day (offs ! i)) @ '' '' @ pad2 (hour (offs ! i)) @ '':00:00''"
      if "-7012656 \<le> py_int (time_var file ! i)"
    proof -
      have "364878 \<le> 657072 + py_int (time_var file ! i) div 24" using that by linarith
      from ord2ymd_year_from_1000[OF this] y have yr: "1000 \<le> year (offs ! i)"
        by (metis fst_conv)
      moreover have "minute (offs ! i) = 0" "second (offs ! i) = 0"
        using s by (simp_all add: stepped_def)
      ultimately show ?thesis using strftime_four_digit_year by blast
    qed
    show ?thesis using s 0 1 2 by blast
  qed
  have "time_var file = [] \<longrightarrow> time_convert file = Inr []" using tc len by auto
  with o tc len el
  show "\<exists>offs. offset file = Inr offs \<and> time_convert file = Inr (map strftime offs)
           \<and> length offs = length (time_var file)
           \<and> (time_var file = [] \<longrightarrow> time_convert file = Inr [])
           \<and> (\<forall>i < length offs.
                 stepped (py_int (time_var file ! i)) (offs ! i)
                 \<and> (-7012656 \<le> py_int (time_var file ! i) \<longrightarrow>
                       1000 \<le> year (offs ! i)
                       \<and> strftime (offs ! i) =
                           pad4 (year (offs ! i)) @ ''-'' @ pad2 (month (offs ! i)) @ ''-''
                           @ pad2 (day (offs ! i)) @ '' '' @ pad2 (hour (offs ! i)) @ '':00:00'')
                 \<and> (time_var file ! i = 0 \<longrightarrow> strftime (offs ! i) = ''1800-01-01 00:00:00'')
                 \<and> (time_var file ! i = 8760 \<longrightarrow> strftime (offs ! i) = ''1801-01-01 00:00:00''))"
    by blast
next
  assume "\<exists>x \<in> set (time_var file). py_int x < -15769704 \<or> 71879711 < py_int x"
  then show "time_convert file = Inl OverflowError" by (rule time_convert_out_of_range)
qed

theorem time_convert_decodes_witness:
  "(\<exists>offs. offset sample_file = Inr offs
      \<and> time_convert sample_file = Inr (map strftime offs) \<and> length offs = 3
      \<and> stepped 0 (offs ! 0) \<and> strftime (offs ! 0) = ''1800-01-01 00:00:00''
      \<and> stepped 8760 (offs ! 1) \<and> strftime (offs ! 1) = ''1801-01-01 00:00:00''
      \<and> stepped (- 1) (offs ! 2) \<and> 1000 \<le> year (offs ! 2))
   \<and> time_convert late_file = Inl OverflowError"
proof -
  have h: "\<forall>x \<in> set (time_var sample_file). -15769704 \<le> py_int x \<and> py_int x \<le> 71879711"
    by (simp add: sample_file_def py_int_def)
  have p: "length (time_var sample_file) = 3"
    by (simp add: sample_file_def)
  from time_convert_decodes[THEN conjunct1, THEN mp, OF h] obtain offs where
    o: "offset sample_file = Inr offs" "time_convert sample_file = Inr (map strftime offs)"
      "length offs = length (time_var sample_file)"
    and el: "\<forall>i < length offs.
                 stepped (py_int (time_var sample_file ! i)) (offs ! i)
                 \<and> (-7012656 \<le> py_int (time_var sample_file ! i) \<longrightarrow>
                       1000 \<le> year (offs ! i)
                       \<and> strftime (offs ! i) =
                           pad4 (year (offs ! i)) @ ''-'' @ pad2 (month (offs ! i)) @ ''-''
                           @ pad2 (day (offs ! i)) @ '' '' @ pad2 (hour (offs ! i)) @ '':00:00'')
                 \<and> (time_var sample_file ! i = 0 \<longrightarrow> strftime (offs ! i) = ''1800-01-01 00:00:00'')
                 \<and> (time_var sample_file ! i = 8760 \<longrightarrow> strftime (offs ! i) = ''1801-01-01 00:00:00'')"
    by blast
  have l: "0 < length offs" "1 < length offs" "2 < length offs" using o(3) p by simp_all
  note c0 = el[rule_format, OF l(1)]
  note c1 = el[rule_format, OF l(2)]
  note c2 = el[rule_format, OF l(3)]
  have e0: "stepped 0 (offs ! 0)" "strftime (offs ! 0) = ''1800-01-01 00:00:00''"
    using c0[THEN conjunct1] c0[THEN conjunct2, THEN conjunct2, THEN conjunct1]
    by (simp_all add: sample_file_def py_int_def)
  have e1: "stepped 8760 (offs ! 1)" "strftime (offs ! 1) = ''1801-01-01 00:00:00''"
    using c1[THEN conjunct1] c1[THEN conjunct2, THEN conjunct2, THEN conjunct2]
    by (simp_all add: sample_file_def py_int_def)
  have e2: "stepped (- 1) (offs ! 2)" "1000 \<le> year (offs ! 2)"
    using c2[THEN conjunct1] c2[THEN conjunct2, THEN conjunct1]
    by (simp_all add: sample_file_def py_int_def)
  have out: "\<exists>x \<in> set (time_var late_file). py_int x < -15769704 \<or> 71879711 < py_int x"
    by (simp add: late_file_def py_int_def)
  have 2: "time_convert late_file = Inl OverflowError"
    by (rule time_convert_decodes[THEN conjunct2, THEN mp, OF out])
  have 1: "\<exists>offs. offset sample_file = Inr offs
      \<and> time_convert sample_file = Inr (map strftime offs) \<and> length offs = 3
      \<and> stepped 0 (offs ! 0) \<and> strftime (offs ! 0) = ''1800-01-01 00:00:00''
      \<and> stepped 8760 (offs ! 1) \<and> strftime (offs ! 1) = ''1801-01-01 00:00:00''
      \<and> stepped (- 1) (offs ! 2) \<and> 1000 \<le> year (offs ! 2)"
    using o p e0 e1 e2 by (intro exI[of _ offs]) simp
  show ?thesis using 1 2 by (rule conjI)
qed

text \<open>An offset of 71879712 hours is the first hour of the year 10000.\<close>

theorem time_convert_overflow_counterexample:
  "time_convert late_file = Inl OverflowError"
  by (simp add: late_file_def time_convert_def offset_def timedelta_hours_def py_int_def
      datetime_add_def toordinal_start start_fields MAXORDINAL_def Let_def)

lemma py_int_bounds:
  "\<bar>real_of_int (py_int x)\<bar> \<le> \<bar>x\<bar>" "\<bar>x - real_of_int (py_int x)\<bar> < 1"
  unfolding py_int_def by (auto; linarith)+

lemma py_int_small: "-1 < x \<Longrightarrow> x < 1 \<Longrightarrow> py_int x = 0"
  unfolding py_int_def by (auto; linarith)

lemma py_int_negative: "x \<le> -1 \<Longrightarrow> py_int x < 0"
  unfolding py_int_def by (auto; linarith)

text \<open>
  Claim C10, amended. \<^verbatim>\<open>time_convert\<close> truncates an hour offset toward zero: the integer
  it uses is no larger in magnitude than the offset and less than one hour away from it,
  so -1.5 hours count as -1 hour. An offset of at most -1 hour (and not below -15769704
  hours, where \<^verbatim>\<open>OverflowError\<close> is raised) is accepted and yields a timestamp strictly
  before 1800-01-01 00:00:00; a negative offset above -1 hour yields the epoch itself.
\<close>

theorem time_convert_truncates_toward_zero:
  assumes "\<forall>x \<in> set (time_var file). -15769704 \<le> py_int x \<and> py_int x \<le> 71879711"
  shows "py_int (- 1.5) = - 1 \<and>
         (\<exists>offs. offset file = Inr offs \<and> time_convert file = Inr (map strftime offs)
           \<and> length offs = length (time_var file)
           \<and> (\<forall>i < length offs.
                 \<bar>real_of_int (py_int (time_var file ! i))\<bar> \<le> \<bar>time_var file ! i\<bar>
                 \<and> \<bar>time_var file ! i - real_of_int (py_int (time_var file ! i))\<bar> < 1
                 \<and> stepped (py_int (time_var file ! i)) (offs ! i)
                 \<and> (time_var file ! i \<le> - 1 \<longrightarrow> datetime_lt (offs ! i) start)
                 \<and> (- 1 < time_var file ! i \<and> time_var file ! i < 1 \<longrightarrow> offs ! i = start)))"
proof -
  have "\<exists>offs. offset file = Inr offs \<and>
           list_all2 (\<lambda>x d. stepped (py_int x) d
                          \<and> (year d, month d, day d) = ord2ymd (657072 + py_int x div 24)
                          \<and> hour d = py_int x mod 24
                          \<and> (py_int x < 0 \<longrightarrow> datetime_lt d start)
                          \<and> (py_int x = 0 \<longrightarrow> d = start)) (time_var file) offs"
    by (rule offset_in_range) (use assms in blast)
  then obtain offs where
    o: "offset file = Inr offs"
    and r: "list_all2 (\<lambda>x d. stepped (py_int x) d
                          \<and> (year d, month d, day d) = ord2ymd (657072 + py_int x div 24)
                          \<and> hour d = py_int x mod 24
                          \<and> (py_int x < 0 \<longrightarrow> datetime_lt d start)
                          \<and> (py_int x = 0 \<longrightarrow> d = start)) (time_var file) offs"
    by blast
  have len: "length offs = length (time_var file)" using r by (simp add: list_all2_lengthD)
  have tc: "time_convert file = Inr (map strftime offs)" by (simp add: time_convert_def o)
  have el: "\<bar>real_of_int (py_int (time_var file ! i))\<bar> \<le> \<bar>time_var file ! i\<bar>
                 \<and> \<bar>time_var file ! i - real_of_int (py_int (time_var file ! i))\<bar> < 1
                 \<and> stepped (py_int (time_var file ! i)) (offs ! i)
                 \<and> (time_var file ! i \<le> - 1 \<longrightarrow> datetime_lt (offs ! i) start)
                 \<and> (- 1 < time_var file ! i \<and> time_var file ! i < 1 \<longrightarrow> offs ! i = start)"
    if "i < length offs" for i
  proof -
    from r that len have
      s: "stepped (py_int (time_var file ! i)) (offs ! i)"
      and n: "py_int (time_var file ! i) < 0 \<longrightarrow> datetime_lt (offs ! i) start"
      and z: "py_int (time_var file ! i) = 0 \<longrightarrow> offs ! i = start"
      by (simp_all add: list_all2_conv_all_nth)
    show ?thesis
      using s n z py_int_bounds[of "time_var file ! i"] py_int_small[of "time_var file ! i"]
        py_int_negative[of "time_var file ! i"]
      by blast
  qed
  have "py_int (- 1.5) = - 1" by (simp add: py_int_def)
  with o tc len el show ?thesis by blast
qed

theorem time_convert_truncates_toward_zero_witness:
  "py_int (- 1.5) = - 1 \<and>
   (\<exists>offs. offset minus_ninety_minutes_file = Inr offs
      \<and> time_convert minus_ninety_minutes_file = Inr (map strftime offs) \<and> length offs = 1
      \<and> stepped (- 1) (offs ! 0) \<and> datetime_lt (offs ! 0) start)"
proof -
  have h: "\<forall>x \<in> set (time_var minus_ninety_minutes_file).
             -15769704 \<le> py_int x \<and> py_int x \<le> 71879711"
    by (simp add: minus_ninety_minutes_file_def py_int_def)
  from time_convert_truncates_toward_zero[OF h] obtain offs where
    p: "py_int (- 1.5) = - 1"
    and o: "offset minus_ninety_minutes_file = Inr offs"
      "time_convert minus_ninety_minutes_file = Inr (map strftime offs)"
      "length offs = length (time_var minus_ninety_minutes_file)"
    and el: "\<forall>i < length offs.
                 \<bar>real_of_int (py_int (time_var minus_ninety_minutes_file ! i))\<bar>
                    \<le> \<bar>time_var minus_ninety_minutes_file ! i\<bar>
                 \<and> \<bar>time_var minus_ninety_minutes_file ! i
                      - real_of_int (py_int (time_var minus_ninety_minutes_file ! i))\<bar> < 1
                 \<and> stepped (py_int (time_var minus_ninety_minutes_file ! i)) (offs ! i)
                 \<and> (time_var minus_ninety_minutes_file ! i \<le> - 1 \<longrightarrow> datetime_lt (offs ! i) start)
                 \<and> (- 1 < time_var minus_ninety_minutes_file ! i
                      \<and> time_var minus_ninety_minutes_file ! i < 1 \<longrightarrow> offs ! i = start)"
    by blast
  have l: "0 < length offs" using o(3) by (simp add: minus_ninety_minutes_file_def)
  have e0: "stepped (- 1) (offs ! 0)" "datetime_lt (offs ! 0) start"
    using el[rule_format, OF l] by (simp_all add: minus_ninety_minutes_file_def py_int_def)
  have "length offs = 1" using o(3) by (simp add: minus_ninety_minutes_file_def)
  then show ?thesis using p o e0 by (intro conjI exI[of _ offs]) simp_all
qed

text \<open>A negative offset above -1 is truncated to 0: the timestamp is the epoch itself.\<close>

theorem time_convert_negative_counterexample:
  "(- 0.5 :: real) < 0 \<and> time_var half_hour_file = [- 0.5]
   \<and> offset half_hour_file = Inr [start]
   \<and> time_convert half_hour_file = Inr [''1800-01-01 00:00:00'']
   \<and> \<not> datetime_lt start start"
proof -
  have o: "offset half_hour_file = Inr [start]"
    by code_simp
  have t: "time_convert half_hour_file = Inr [''1800-01-01 00:00:00'']"
    by (simp add: time_convert_def o strftime_start)
  show ?thesis using o t by (simp add: half_hour_file_def datetime_lt_def)
qed

section \<open>The renderers\<close>

subsection \<open>Index searches and slices\<close>

lemma np_where_Cons:
  assumes "np_where P xs = i # rest"
  shows "i < length xs \<and> P (xs ! i) \<and> (\<forall>j<i. \<not> P (xs ! j))"
proof -
  from assms obtain us vs where
    split: "[0..<length xs] = us @ i # vs" and before: "\<forall>u\<in>set us. \<not> P (xs ! u)"
    and at: "P (xs ! i)"
    unfolding np_where_def filter_eq_Cons_iff by blast
  have i: "i < length xs"
  proof -
    have "i \<in> set [0..<length xs]" unfolding split by simp
    then show ?thesis by simp
  qed
  have us: "us = [0..<i]"
  proof -
    have "length us < length [0..<length xs]" unfolding split by simp
    then have lu: "length us < length xs" by simp
    have "[0..<length xs] ! length us = i" unfolding split by simp
    then have "length us = i" using lu by simp
    moreover have "us = take (length us) [0..<length xs]" unfolding split by simp
    ultimately show ?thesis using i by (simp add: take_upt)
  qed
  show ?thesis using i at before unfolding us by simp
qed

lemma first_index_Inr:
  assumes "first_index P xs = Inr i"
  shows "i < length xs \<and> P (xs ! i) \<and> (\<forall>j<i. \<not> P (xs ! j))"
proof (cases "np_where P xs")
  case Nil
  with assms show ?thesis by (simp add: first_index_def)
next
  case (Cons k rest)
  with assms have "k = i" by (simp add: first_index_def)
  with Cons show ?thesis using np_where_Cons by blast
qed

lemma first_index_none:
  assumes "\<forall>x\<in>set xs. \<not> P x"
  shows "first_index P xs = Inl IndexError"
proof -
  have "np_where P xs = []"
    unfolding np_where_def filter_empty_conv using assms by simp
  then show ?thesis by (simp add: first_index_def)
qed

lemma first_index_cases:
  "first_index P xs = Inl IndexError \<or> (\<exists>i. first_index P xs = Inr i)"
  by (simp add: first_index_def split: list.splits)

lemma length_every_other: "length (every_other xs) = (length xs + 1) div 2"
  by (induction xs rule: every_other.induct) simp_all

lemma nth_every_other:
  "i < length (every_other xs) \<Longrightarrow> 2 * i < length xs \<and> every_other xs ! i = xs ! (2 * i)"
proof (induction xs arbitrary: i rule: every_other.induct)
  case 1
  then show ?case by simp
next
  case (2 x)
  then show ?case by simp
next
  case (3 x y xs)
  then show ?case by (cases i) simp_all
qed

lemma nth_slice2:
  assumes "i < length (slice2 g)" "j < length (slice2 g ! i)"
  shows "2 * i < length g \<and> 2 * j < length (g ! (2 * i)) \<and> slice2 g ! i ! j = g ! (2 * i) ! (2 * j)"
proof -
  from assms(1) have i: "i < length (every_other g)" by (simp add: slice2_def)
  then have gi: "2 * i < length g" "every_other g ! i = g ! (2 * i)"
    using nth_every_other by blast+
  have row: "slice2 g ! i = every_other (g ! (2 * i))"
    using i gi by (simp add: slice2_def)
  with assms(2) have "j < length (every_other (g ! (2 * i)))" by simp
  then have "2 * j < length (g ! (2 * i))" "every_other (g ! (2 * i)) ! j = g ! (2 * i) ! (2 * j)"
    using nth_every_other by blast+
  then show ?thesis using gi row by simp
qed

lemma nth_scale:
  "i < length g \<Longrightarrow> j < length (g ! i) \<Longrightarrow> scale c g ! i ! j = g ! i ! j / c"
  by (simp add: scale_def)

lemma length_scale: "length (scale c g) = length g" "i < length g \<Longrightarrow> length (scale c g ! i) = length (g ! i)"
  by (simp_all add: scale_def)

lemma nth_shift:
  "i < length g \<Longrightarrow> j < length (g ! i) \<Longrightarrow> shift c g ! i ! j = g ! i ! j - c"
  by (simp add: shift_def)

subsection \<open>Files and figures\<close>

lemma open_files_present:
  assumes "files w p1 = Some d1" "files w p2 = Some d2" "files w p3 = Some d3"
  shows "open_files p1 p2 p3 w =
           (Inr ((length (handles w), d1), (Suc (length (handles w)), d2),
                 (Suc (Suc (length (handles w))), d3)),
            w\<lparr>handles := handles w @ [(p1, True), (p2, True), (p3, True)]\<rparr>)"
  using assms by (simp add: open_files_def Dataset_def)

lemma open_files_Inr:
  assumes "open_files p1 p2 p3 w = (Inr r, w1)"
  shows "\<exists>d1 d2 d3. files w p1 = Some d1 \<and> files w p2 = Some d2 \<and> files w p3 = Some d3"
  using assms by (auto simp: open_files_def Dataset_def split: option.splits)

lemma close_files_opened:
  "close_files (length hs) (Suc (length hs)) (Suc (Suc (length hs)))
     (w\<lparr>handles := hs @ [(p1, True), (p2, True), (p3, True)]\<rparr>)
   = w\<lparr>handles := hs @ [(p1, False), (p2, False), (p3, False)]\<rparr>"
  by (simp add: close_files_def close_def nth_append list_update_append)

lemma add_features_new:
  "add_features (length fs) (w\<lparr>figures := fs @ [f]\<rparr>)
   = w\<lparr>figures := fs @ [f\<lparr>features := features f @ FEATURES\<rparr>]\<rparr>"
  by (simp add: add_features_def FEATURES_def on_axis_def)

lemma draw_eq:
  "draw field levels label sel cmap barb_color ext w =
     (case check_xyz (sel_lon sel) (sel_lat sel) field of
        Some e \<Rightarrow> (Inl e, w\<lparr>figures := figures w @ [empty_figure\<lparr>extent := ext\<rparr>]\<rparr>)
      | None \<Rightarrow>
     (case slice2_coords (sel_lon sel) of
        Inl e \<Rightarrow> (Inl e, w\<lparr>figures := figures w @ [contour_stage field levels sel cmap ext]\<rparr>)
      | Inr lon2 \<Rightarrow>
     (case slice2_coords (sel_lat sel) of
        Inl e \<Rightarrow> (Inl e, w\<lparr>figures := figures w @ [contour_stage field levels sel cmap ext]\<rparr>)
      | Inr lat2 \<Rightarrow>
          (Inr (length (figures w)),
           w\<lparr>figures := figures w @
              [\<lparr>extent = ext, contourf = Some (sel_lon sel, sel_lat sel, field, levels, cmap),
                barbs = Some (lon2, lat2, slice2 (sel_uwnd sel), slice2 (sel_vwnd sel), barb_color),
                features = FEATURES, colorbar_label = Some label\<rparr>]\<rparr>))))"
  by (cases ext)
    (simp_all add: draw_def subplots_def on_axis_def add_features_new empty_figure_def
      contour_stage_def Let_def split: sum.splits option.splits)

subsection \<open>The calls unfolded\<close>

lemma hgt_select_Inr:
  assumes "hgt_select u v h level date = Inr sel"
  shows "\<exists>ts tw lw. time_convert u = Inr ts \<and> time_where ts date = Inr tw
           \<and> level_where (level_cast u) (level_var u) level = Inr lw
           \<and> tw < length (data_var u) \<and> lw < length (data_var u ! tw)
           \<and> tw < length (data_var v) \<and> lw < length (data_var v ! tw)
           \<and> tw < length (data_var h) \<and> lw < length (data_var h ! tw)
           \<and> sel = \<lparr>sel_uwnd = scale 0.514 (data_var u ! tw ! lw),
                     sel_vwnd = scale 0.514 (data_var v ! tw ! lw),
                     sel_field = data_var h ! tw ! lw,
                     sel_lat = lat_var u, sel_lon = lon_var u\<rparr>"
  using assms
  by (auto simp: hgt_select_def getitem2_def getitem_def split: sum.splits if_splits)

lemma dew_select_Inr:
  assumes "dew_select u v d date = Inr sel"
  shows "\<exists>ts tw. time_convert u = Inr ts \<and> time_where ts date = Inr tw
           \<and> tw < length (data_var u) \<and> tw < length (data_var v) \<and> tw < length (data_var d)
           \<and> sel = \<lparr>sel_uwnd = scale 0.514 (data_var u ! tw),
                     sel_vwnd = scale 0.514 (data_var v ! tw),
                     sel_field = data_var d ! tw,
                     sel_lat = lat_var u, sel_lon = lon_var u\<rparr>"
  using assms
  by (auto simp: dew_select_def getitem_def split: sum.splits if_splits)

lemma weather_plot_hgt_present:
  assumes "files w u = Some du" "files w v = Some dv" "files w h = Some dh"
  shows "weather_plot_hgt u v h level date cmap bc ext w =
     (case hgt_select du dv dh level date of
        Inl e \<Rightarrow> (Inl e, w\<lparr>handles := handles w @ [(u, True), (v, True), (h, True)]\<rparr>)
      | Inr sel \<Rightarrow>
          (case draw (sel_field sel) height_range
                  (str_int level @ '' mb Geopotential Height (meters)'') sel cmap bc ext
                  (w\<lparr>handles := handles w @ [(u, False), (v, False), (h, False)]\<rparr>) of
             (Inl e, w2) \<Rightarrow> (Inl e, w2)
           | (Inr ax, w2) \<Rightarrow> (Inr (sel_field sel, ax), w2)))"
  by (simp add: weather_plot_hgt_def open_files_present[OF assms] close_files_opened
      split: sum.splits)

lemma weather_plot_dew_present:
  assumes "files w u = Some du" "files w v = Some dv" "files w d = Some dd"
  shows "weather_plot_dew u v d date cmap bc ext w =
     (case dew_select du dv dd date of
        Inl e \<Rightarrow> (Inl e, w\<lparr>handles := handles w @ [(u, True), (v, True), (d, True)]\<rparr>)
      | Inr sel \<Rightarrow>
          (case draw (shift 273.15 (sel_field sel)) dew_range ''2-Meter Dewpoint (Celsius)''
                  sel cmap bc ext
                  (w\<lparr>handles := handles w @ [(u, False), (v, False), (d, False)]\<rparr>) of
             (Inl e, w2) \<Rightarrow> (Inl e, w2)
           | (Inr ax, w2) \<Rightarrow> (Inr (sel_field sel, ax), w2)))"
  by (simp add: weather_plot_dew_def open_files_present[OF assms] close_files_opened
      split: sum.splits)

lemma weather_plot_hgt_missing:
  assumes "files w u = None \<or> files w v = None \<or> files w h = None"
  shows "fst (weather_plot_hgt u v h level date cmap bc ext w) = Inl FileNotFoundError"
  using assms
  by (auto simp: weather_plot_hgt_def open_files_def Dataset_def split: option.splits)

lemma weather_plot_dew_missing:
  assumes "files w u = None \<or> files w v = None \<or> files w d = None"
  shows "fst (weather_plot_dew u v d date cmap bc ext w) = Inl FileNotFoundError"
  using assms
  by (auto simp: weather_plot_dew_def open_files_def Dataset_def split: option.splits)

text \<open>What a call that returns has done.\<close>

lemma weather_plot_hgt_returns:
  assumes "weather_plot_hgt u v h level date cmap bc ext w = (Inr (field, ax), w')"
  shows "\<exists>du dv dh sel lon2 lat2.
           files w u = Some du \<and> files w v = Some dv \<and> files w h = Some dh
           \<and> hgt_select du dv dh level date = Inr sel
           \<and> check_xyz (sel_lon sel) (sel_lat sel) (sel_field sel) = None
           \<and> slice2_coords (sel_lon sel) = Inr lon2 \<and> slice2_coords (sel_lat sel) = Inr lat2
           \<and> field = sel_field sel \<and> ax = length (figures w)
           \<and> w' = w\<lparr>handles := handles w @ [(u, False), (v, False), (h, False)],
                    figures := figures w @
                      [\<lparr>extent = ext,
                        contourf = Some (sel_lon sel, sel_lat sel, sel_field sel, height_range, cmap),
                        barbs = Some (lon2, lat2, slice2 (sel_uwnd sel), slice2 (sel_vwnd sel), bc),
                        features = FEATURES,
                        colorbar_label = Some (str_int level @ '' mb Geopotential Height (meters)'')\<rparr>]\<rparr>"
proof -
  have "fst (weather_plot_hgt u v h level date cmap bc ext w) \<noteq> Inl FileNotFoundError"
    using assms by simp
  then obtain du dv dh where f: "files w u = Some du" "files w v = Some dv" "files w h = Some dh"
    using weather_plot_hgt_missing[of w u v h] by fastforce
  show ?thesis
    using assms unfolding weather_plot_hgt_present[OF f] draw_eq
    by (auto simp: f split: sum.splits option.splits)
qed

lemma weather_plot_dew_returns:
  assumes "weather_plot_dew u v d date cmap bc ext w = (Inr (field, ax), w')"
  shows "\<exists>du dv dd sel lon2 lat2.
           files w u = Some du \<and> files w v = Some dv \<and> files w d = Some dd
           \<and> dew_select du dv dd date = Inr sel
           \<and> check_xyz (sel_lon sel) (sel_lat sel) (shift 273.15 (sel_field sel)) = None
           \<and> slice2_coords (sel_lon sel) = Inr lon2 \<and> slice2_coords (sel_lat sel) = Inr lat2
           \<and> field = sel_field sel \<and> ax = length (figures w)
           \<and> w' = w\<lparr>handles := handles w @ [(u, False), (v, False), (d, False)],
                    figures := figures w @
                      [\<lparr>extent = ext,
                        contourf = Some (sel_lon sel, sel_lat sel, shift 273.15 (sel_field sel),
                                         dew_range, cmap),
                        barbs = Some (lon2, lat2, slice2 (sel_uwnd sel), slice2 (sel_vwnd sel), bc),
                        features = FEATURES,
                        colorbar_label = Some ''2-Meter Dewpoint (Celsius)''\<rparr>]\<rparr>"
proof -
  have "fst (weather_plot_dew u v d date cmap bc ext w) \<noteq> Inl FileNotFoundError"
    using assms by simp
  then obtain du dv dd where f: "files w u = Some du" "files w v = Some dv" "files w d = Some dd"
    using weather_plot_dew_missing[of w u v d] by fastforce
  show ?thesis
    using assms unfolding weather_plot_dew_present[OF f] draw_eq
    by (auto simp: f split: sum.splits option.splits)
qed

subsection \<open>The example calls\<close>

lemma pressure_files:
  "files pressure_world ''uwnd.nc'' = Some uwnd_nc"
  "files pressure_world ''vwnd.nc'' = Some vwnd_nc"
  "files pressure_world ''hgt.nc'' = Some hgt_nc"
  by (simp_all add: pressure_world_def)

lemma pressure_files_short:
  "files pressure_world ''uwnd.nc'' = Some uwnd_nc"
  "files pressure_world ''vwnd.short.nc'' = Some vwnd_short_nc"
  "files pressure_world ''hgt.nc'' = Some hgt_nc"
  by (simp_all add: pressure_world_def)

lemma pressure_time: "time_convert uwnd_nc = Inr [''1800-01-01 00:00:00'', ''1800-01-01 03:00:00'']"
  by code_simp

lemma pressure_select:
  "hgt_select uwnd_nc vwnd_nc hgt_nc 500 ''1800-01-01 03:00:00'' =
     Inr \<lparr>sel_uwnd = [[1, 0, 2], [0, 0, 0]], sel_vwnd = [[- 1, 0, 0], [0, 0, 0]],
          sel_field = [[5920, 5930, 5940], [5950, 5960, 5970]],
          sel_lat = lat23, sel_lon = lon23\<rparr>"
  by code_simp

lemma pressure_select_short:
  "hgt_select uwnd_nc vwnd_short_nc hgt_nc 500 ''1800-01-01 03:00:00'' = Inl IndexError"
  by code_simp

lemma pressure_call:
  "weather_plot_hgt ''uwnd.nc'' ''vwnd.nc'' ''hgt.nc'' 500 ''1800-01-01 03:00:00''
      ''Reds'' ''darkblue'' None pressure_world =
   (Inr ([[5920, 5930, 5940], [5950, 5960, 5970]], 0),
    pressure_world\<lparr>handles := [(''uwnd.nc'', False), (''vwnd.nc'', False), (''hgt.nc'', False)],
       figures := [\<lparr>extent = None,
          contourf = Some (lon23, lat23, [[5920, 5930, 5940], [5950, 5960, 5970]],
                           height_range, ''Reds''),
          barbs = Some (Axis2 [[- 90, - 88]], Axis2 [[30, 30]], [[1, 2]], [[- 1, 0]], ''darkblue''),
          features = FEATURES,
          colorbar_label = Some (str_int 500 @ '' mb Geopotential Height (meters)'')\<rparr>]\<rparr>)"
  unfolding weather_plot_hgt_present[OF pressure_files] pressure_select draw_eq
  by (simp add: lat23_def lon23_def slice2_def pressure_world_def check_xyz_def shape_def)

lemma pressure_call_short:
  "weather_plot_hgt ''uwnd.nc'' ''vwnd.short.nc'' ''hgt.nc'' 500 ''1800-01-01 03:00:00''
      ''Reds'' ''darkblue'' None pressure_world =
   (Inl IndexError,
    pressure_world\<lparr>handles := [(''uwnd.nc'', True), (''vwnd.short.nc'', True), (''hgt.nc'', True)]\<rparr>)"
  unfolding weather_plot_hgt_present[OF pressure_files_short] pressure_select_short
  by (simp add: pressure_world_def)

lemma surface_files:
  "files surface_world ''uwnd.10m.nc'' = Some uwnd10m_nc"
  "files surface_world ''vwnd.10m.nc'' = Some vwnd10m_nc"
  "files surface_world ''dpt.2m.nc'' = Some dpt2m_nc"
  by (simp_all add: surface_world_def)

lemma surface_select:
  "dew_select uwnd10m_nc vwnd10m_nc dpt2m_nc ''1800-01-01 03:00:00'' =
     Inr \<lparr>sel_uwnd = [[1, 0, 2], [0, 0, 0]], sel_vwnd = [[- 1, 0, 0], [0, 0, 0]],
          sel_field = [[273.15, 292, 293], [294, 295, 296]],
          sel_lat = lat23, sel_lon = lon23\<rparr>"
  by code_simp

lemma surface_call:
  "weather_plot_dew ''uwnd.10m.nc'' ''vwnd.10m.nc'' ''dpt.2m.nc'' ''1800-01-01 03:00:00''
      ''Greens'' ''blue'' None surface_world =
   (Inr ([[273.15, 292, 293], [294, 295, 296]], 0),
    surface_world\<lparr>handles := [(''uwnd.10m.nc'', False), (''vwnd.10m.nc'', False),
                              (''dpt.2m.nc'', False)],
       figures := [\<lparr>extent = None,
          contourf = Some (lon23, lat23, shift 273.15 [[273.15, 292, 293], [294, 295, 296]],
                           dew_range, ''Greens''),
          barbs = Some (Axis2 [[- 90, - 88]], Axis2 [[30, 30]], [[1, 2]], [[- 1, 0]], ''blue''),
          features = FEATURES, colorbar_label = Some ''2-Meter Dewpoint (Celsius)''\<rparr>]\<rparr>)"
  unfolding weather_plot_dew_present[OF surface_files] surface_select draw_eq
  by (simp add: lat23_def lon23_def slice2_def surface_world_def check_xyz_def shape_def
      shift_def)

subsection \<open>What the renderers return\<close>

lemma time_where_Inr:
  "time_where ts date = Inr tw \<Longrightarrow> tw < length ts \<and> np_str_eq (ts ! tw) date \<and> (\<forall>j<tw. \<not> np_str_eq (ts ! j) date)"
  unfolding time_where_def by (drule first_index_Inr) simp

lemma level_where_Inr:
  "level_where cast ls level = Inr lw \<Longrightarrow>
     lw < length ls \<and> ls ! lw = cast level \<and> (\<forall>j<lw. ls ! j \<noteq> cast level)"
  unfolding level_where_def by (drule first_index_Inr) simp

text \<open>
  Claim C7. The array that \<^verbatim>\<open>weather_plot_hgt\<close> returns is the slice of the height file at
  the first time index whose timestamp matches the date (equality up to trailing NUL
  characters) and the first level index whose level is the requested one (converted to the
  type of the axis), as read: the conversion of the winds to knots does not touch it.
\<close>

theorem hgt_returned_is_file_slice:
  assumes "weather_plot_hgt u v h level date cmap bc ext w = (Inr (hgt, ax), w')"
  shows "\<exists>du dh ts tw lw. files w u = Some du \<and> files w h = Some dh
           \<and> time_convert du = Inr ts
           \<and> tw < length ts \<and> np_str_eq (ts ! tw) date \<and> (\<forall>j<tw. \<not> np_str_eq (ts ! j) date)
           \<and> lw < length (level_var du) \<and> level_var du ! lw = level_cast du level
           \<and> (\<forall>j<lw. level_var du ! j \<noteq> level_cast du level)
           \<and> tw < length (data_var dh) \<and> lw < length (data_var dh ! tw)
           \<and> hgt = data_var dh ! tw ! lw"
proof -
  from weather_plot_hgt_returns[OF assms] obtain du dv dh sel where
    f: "files w u = Some du" "files w h = Some dh"
    and s: "hgt_select du dv dh level date = Inr sel" and r: "hgt = sel_field sel"
    by blast
  from hgt_select_Inr[OF s] obtain ts tw lw where
    t: "time_convert du = Inr ts" "time_where ts date = Inr tw"
      "level_where (level_cast du) (level_var du) level = Inr lw"
    and b: "tw < length (data_var dh)" "lw < length (data_var dh ! tw)"
    and sel: "sel_field sel = data_var dh ! tw ! lw"
    by auto
  show ?thesis
    using f t(1) time_where_Inr[OF t(2)] level_where_Inr[OF t(3)] b r sel by blast
qed

theorem hgt_returned_is_file_slice_witness:
  "\<exists>du dh ts tw lw. files pressure_world ''uwnd.nc'' = Some du
           \<and> files pressure_world ''hgt.nc'' = Some dh
           \<and> time_convert du = Inr ts
           \<and> tw < length ts \<and> np_str_eq (ts ! tw) ''1800-01-01 03:00:00''
           \<and> (\<forall>j<tw. \<not> np_str_eq (ts ! j) ''1800-01-01 03:00:00'')
           \<and> lw < length (level_var du) \<and> level_var du ! lw = level_cast du 500
           \<and> (\<forall>j<lw. level_var du ! j \<noteq> level_cast du 500)
           \<and> tw < length (data_var dh) \<and> lw < length (data_var dh ! tw)
           \<and> [[5920, 5930, 5940], [5950, 5960, 5970]] = data_var dh ! tw ! lw"
  by (rule hgt_returned_is_file_slice[OF pressure_call])

text \<open>
  Claim C1, amended. The array that \<^verbatim>\<open>weather_plot_dew\<close> returns is the slice of the
  dewpoint file at the first time index that matches the date, as read, in Kelvin. The
  conversion to
  Celsius, the subtraction of 273.15 from every sample (so that 273.15 K becomes 0.0), is
  applied to the field handed to the contour plot only.
\<close>

theorem dew_returned_in_kelvin:
  assumes "weather_plot_dew u v d date cmap bc ext w = (Inr (dew, ax), w')"
  shows "\<exists>du dd ts tw lon lat plotted.
           files w u = Some du \<and> files w d = Some dd \<and> time_convert du = Inr ts
           \<and> tw < length ts \<and> np_str_eq (ts ! tw) date \<and> (\<forall>j<tw. \<not> np_str_eq (ts ! j) date)
           \<and> tw < length (data_var dd) \<and> dew = data_var dd ! tw
           \<and> ax < length (figures w')
           \<and> contourf (figures w' ! ax) = Some (lon, lat, plotted, dew_range, cmap)
           \<and> length plotted = length dew
           \<and> (\<forall>i<length dew. length (plotted ! i) = length (dew ! i)
                \<and> (\<forall>j<length (dew ! i).
                      plotted ! i ! j = dew ! i ! j - 273.15
                      \<and> (dew ! i ! j = 273.15 \<longrightarrow> plotted ! i ! j = 0)))"
proof -
  from weather_plot_dew_returns[OF assms] obtain du dv dd sel lon2 lat2 where
    f: "files w u = Some du" "files w d = Some dd"
    and s: "dew_select du dv dd date = Inr sel" and r: "dew = sel_field sel"
    and ax: "ax = length (figures w)"
    and w': "w' = w\<lparr>handles := handles w @ [(u, False), (v, False), (d, False)],
                    figures := figures w @
                      [\<lparr>extent = ext,
                        contourf = Some (sel_lon sel, sel_lat sel, shift 273.15 (sel_field sel),
                                         dew_range, cmap),
                        barbs = Some (lon2, lat2, slice2 (sel_uwnd sel), slice2 (sel_vwnd sel), bc),
                        features = FEATURES,
                        colorbar_label = Some ''2-Meter Dewpoint (Celsius)''\<rparr>]\<rparr>"
    by blast
  from dew_select_Inr[OF s] obtain ts tw where
    t: "time_convert du = Inr ts" "time_where ts date = Inr tw"
    and b: "tw < length (data_var dd)"
    and sel: "sel_field sel = data_var dd ! tw"
    by auto
  have c: "ax < length (figures w')"
    "contourf (figures w' ! ax) = Some (sel_lon sel, sel_lat sel, shift 273.15 dew, dew_range, cmap)"
    unfolding w' ax r by simp_all
  have p: "length (shift 273.15 dew) = length dew"
    "\<forall>i<length dew. length (shift 273.15 dew ! i) = length (dew ! i)
        \<and> (\<forall>j<length (dew ! i).
              shift 273.15 dew ! i ! j = dew ! i ! j - 273.15
              \<and> (dew ! i ! j = 273.15 \<longrightarrow> shift 273.15 dew ! i ! j = 0))"
    by (simp_all add: shift_def)
  show ?thesis
    using f t(1) time_where_Inr[OF t(2)] b r sel c p by blast
qed

theorem dew_returned_in_kelvin_witness:
  "\<exists>du dd ts tw lon lat plotted.
           files surface_world ''uwnd.10m.nc'' = Some du
           \<and> files surface_world ''dpt.2m.nc'' = Some dd \<and> time_convert du = Inr ts
           \<and> tw < length ts \<and> np_str_eq (ts ! tw) ''1800-01-01 03:00:00''
           \<and> tw < length (data_var dd)
           \<and> [[273.15, 292, 293], [294, 295, 296]] = data_var dd ! tw
           \<and> contourf (figures (snd (weather_plot_dew ''uwnd.10m.nc'' ''vwnd.10m.nc''
                  ''dpt.2m.nc'' ''1800-01-01 03:00:00'' ''Greens'' ''blue'' None surface_world)) ! 0)
               = Some (lon, lat, plotted, dew_range, ''Greens'')
           \<and> plotted ! 0 ! 0 = 0"
proof -
  let ?dew = "[[273.15, 292, 293], [294, 295, 296]] :: real list list"
  from dew_returned_in_kelvin[OF surface_call] obtain du dd ts tw lon lat plotted where
    a: "files surface_world ''uwnd.10m.nc'' = Some du"
      "files surface_world ''dpt.2m.nc'' = Some dd" "time_convert du = Inr ts"
      "tw < length ts" "np_str_eq (ts ! tw) ''1800-01-01 03:00:00''"
      "tw < length (data_var dd)" "?dew = data_var dd ! tw"
    and c: "contourf (figures (surface_world\<lparr>handles := [(''uwnd.10m.nc'', False),
                   (''vwnd.10m.nc'', False), (''dpt.2m.nc'', False)],
       figures := [\<lparr>extent = None,
          contourf = Some (lon23, lat23, shift 273.15 ?dew, dew_range, ''Greens''),
          barbs = Some (Axis2 [[- 90, - 88]], Axis2 [[30, 30]], [[1, 2]], [[- 1, 0]], ''blue''),
          features = FEATURES, colorbar_label = Some ''2-Meter Dewpoint (Celsius)''\<rparr>]\<rparr>) ! 0)
          = Some (lon, lat, plotted, dew_range, ''Greens'')"
    and p: "\<forall>i<length ?dew. length (plotted ! i) = length (?dew ! i)
                \<and> (\<forall>j<length (?dew ! i).
                      plotted ! i ! j = ?dew ! i ! j - 273.15
                      \<and> (?dew ! i ! j = 273.15 \<longrightarrow> plotted ! i ! j = 0))"
    by blast
  from p have "plotted ! 0 ! 0 = 0" by simp
  then show ?thesis using a c unfolding surface_call by (intro exI[of _ du] exI[of _ dd] exI[of _ ts] exI[of _ tw] exI[of _ lon] exI[of _ lat] exI[of _ plotted]) simp
qed

theorem dew_returned_celsius_counterexample:
  "fst (weather_plot_dew ''uwnd.10m.nc'' ''vwnd.10m.nc'' ''dpt.2m.nc'' ''1800-01-01 03:00:00''
          ''Greens'' ''blue'' None surface_world)
     = Inr (data_var dpt2m_nc ! 1, 0)
   \<and> data_var dpt2m_nc ! 1 ! 0 ! 0 = 273.15
   \<and> shift 273.15 (data_var dpt2m_nc ! 1) ! 0 ! 0 = 0
   \<and> fst (weather_plot_dew ''uwnd.10m.nc'' ''vwnd.10m.nc'' ''dpt.2m.nc'' ''1800-01-01 03:00:00''
          ''Greens'' ''blue'' None surface_world)
     \<noteq> Inr (shift 273.15 (data_var dpt2m_nc ! 1), 0)"
  unfolding surface_call by (simp add: dpt2m_nc_def shift_def)

subsection \<open>Units and shapes\<close>

lemma in_knots_slice2_scale: "in_knots raw (slice2 (scale 0.514 raw))"
proof -
  let ?p = "slice2 (scale 0.514 raw)"
  have len: "length ?p = (length raw + 1) div 2"
    by (simp add: slice2_def length_every_other scale_def)
  have row: "2 * i < length raw \<and> length (?p ! i) = (length (raw ! (2 * i)) + 1) div 2"
    if "i < length ?p" for i
  proof -
    from that have i: "i < length (every_other (scale 0.514 raw))" by (simp add: slice2_def)
    then have gi: "2 * i < length (scale 0.514 raw)"
      "every_other (scale 0.514 raw) ! i = scale 0.514 raw ! (2 * i)"
      using nth_every_other by blast+
    from gi(1) have r: "2 * i < length raw" by (simp add: scale_def)
    have "?p ! i = every_other (scale 0.514 raw ! (2 * i))"
      using i gi by (simp add: slice2_def)
    then have "length (?p ! i) = (length (scale 0.514 raw ! (2 * i)) + 1) div 2"
      by (simp add: length_every_other)
    then show ?thesis using r by (simp add: length_scale)
  qed
  have el: "2 * j < length (raw ! (2 * i))
        \<and> ?p ! i ! j = raw ! (2 * i) ! (2 * j) / 0.514
        \<and> (raw ! (2 * i) ! (2 * j) = 0.514 \<longrightarrow> ?p ! i ! j = 1)"
    if "i < length ?p" "j < length (?p ! i)" for i j
  proof -
    from nth_slice2[OF that] have
      a: "2 * i < length (scale 0.514 raw)" "2 * j < length (scale 0.514 raw ! (2 * i))"
      "?p ! i ! j = scale 0.514 raw ! (2 * i) ! (2 * j)"
      by simp_all
    from a(1) have i: "2 * i < length raw" by (simp add: scale_def)
    with a(2) have j: "2 * j < length (raw ! (2 * i))" by (simp add: scale_def)
    have "?p ! i ! j = raw ! (2 * i) ! (2 * j) / 0.514"
      using a(3) nth_scale[OF i j] by simp
    then show ?thesis using j by simp
  qed
  show ?thesis unfolding in_knots_def using len row el by blast
qed

text \<open>
  Claim C5. In both renderers the u-wind and v-wind arrays handed to \<^verbatim>\<open>barbs\<close> are every
  other row of the slice read from the file and every other sample of these rows, and
  hold, at every position, the sample read from the file at twice the row and twice the
  column, divided by 0.514: a sample of 0.514 m/s is plotted as 1 knot.
\<close>

theorem barbs_in_knots:
  "(weather_plot_hgt u v h level date cmap bc ext w = (Inr (hgt, ax), w') \<longrightarrow>
      (\<exists>du dv ts tw lw lon2 lat2 pu pv.
         files w u = Some du \<and> files w v = Some dv \<and> time_convert du = Inr ts
         \<and> time_where ts date = Inr tw \<and> level_where (level_cast du) (level_var du) level = Inr lw
         \<and> tw < length (data_var du) \<and> lw < length (data_var du ! tw)
         \<and> tw < length (data_var dv) \<and> lw < length (data_var dv ! tw)
         \<and> ax < length (figures w')
         \<and> barbs (figures w' ! ax) = Some (lon2, lat2, pu, pv, bc)
         \<and> in_knots (data_var du ! tw ! lw) pu \<and> in_knots (data_var dv ! tw ! lw) pv))
   \<and> (weather_plot_dew us vs ds dates cmaps bcs exts ws = (Inr (dew, axs), ws') \<longrightarrow>
      (\<exists>du dv ts tw lon2 lat2 pu pv.
         files ws us = Some du \<and> files ws vs = Some dv \<and> time_convert du = Inr ts
         \<and> time_where ts dates = Inr tw
         \<and> tw < length (data_var du) \<and> tw < length (data_var dv)
         \<and> axs < length (figures ws')
         \<and> barbs (figures ws' ! axs) = Some (lon2, lat2, pu, pv, bcs)
         \<and> in_knots (data_var du ! tw) pu \<and> in_knots (data_var dv ! tw) pv))
   \<and> (0.514 :: real) / 0.514 = 1"
proof (intro conjI impI)
  assume a: "weather_plot_hgt u v h level date cmap bc ext w = (Inr (hgt, ax), w')"
  from weather_plot_hgt_returns[OF a] obtain du dv dh sel lon2 lat2 where
    f: "files w u = Some du" "files w v = Some dv"
    and s: "hgt_select du dv dh level date = Inr sel"
    and ax: "ax = length (figures w)"
    and w': "w' = w\<lparr>handles := handles w @ [(u, False), (v, False), (h, False)],
                    figures := figures w @
                      [\<lparr>extent = ext,
                        contourf = Some (sel_lon sel, sel_lat sel, sel_field sel, height_range, cmap),
                        barbs = Some (lon2, lat2, slice2 (sel_uwnd sel), slice2 (sel_vwnd sel), bc),
                        features = FEATURES,
                        colorbar_label = Some (str_int level @ '' mb Geopotential Height (meters)'')\<rparr>]\<rparr>"
    by blast
  from hgt_select_Inr[OF s] obtain ts tw lw where
    t: "time_convert du = Inr ts" "time_where ts date = Inr tw"
      "level_where (level_cast du) (level_var du) level = Inr lw"
    and b: "tw < length (data_var du)" "lw < length (data_var du ! tw)"
      "tw < length (data_var dv)" "lw < length (data_var dv ! tw)"
    and sel: "sel_uwnd sel = scale 0.514 (data_var du ! tw ! lw)"
      "sel_vwnd sel = scale 0.514 (data_var dv ! tw ! lw)"
    by auto
  have c: "ax < length (figures w')"
    "barbs (figures w' ! ax) = Some (lon2, lat2, slice2 (scale 0.514 (data_var du ! tw ! lw)),
        slice2 (scale 0.514 (data_var dv ! tw ! lw)), bc)"
    unfolding w' ax by (simp_all add: sel)
  show "\<exists>du dv ts tw lw lon2 lat2 pu pv.
         files w u = Some du \<and> files w v = Some dv \<and> time_convert du = Inr ts
         \<and> time_where ts date = Inr tw \<and> level_where (level_cast du) (level_var du) level = Inr lw
         \<and> tw < length (data_var du) \<and> lw < length (data_var du ! tw)
         \<and> tw < length (data_var dv) \<and> lw < length (data_var dv ! tw)
         \<and> ax < length (figures w')
         \<and> barbs (figures w' ! ax) = Some (lon2, lat2, pu, pv, bc)
         \<and> in_knots (data_var du ! tw ! lw) pu \<and> in_knots (data_var dv ! tw ! lw) pv"
    using f t b c in_knots_slice2_scale by blast
next
  assume a: "weather_plot_dew us vs ds dates cmaps bcs exts ws = (Inr (dew, axs), ws')"
  from weather_plot_dew_returns[OF a] obtain du dv dd sel lon2 lat2 where
    f: "files ws us = Some du" "files ws vs = Some dv"
    and s: "dew_select du dv dd dates = Inr sel"
    and ax: "axs = length (figures ws)"
    and w': "ws' = ws\<lparr>handles := handles ws @ [(us, False), (vs, False), (ds, False)],
                    figures := figures ws @
                      [\<lparr>extent = exts,
                        contourf = Some (sel_lon sel, sel_lat sel, shift 273.15 (sel_field sel),
                                         dew_range, cmaps),
                        barbs = Some (lon2, lat2, slice2 (sel_uwnd sel), slice2 (sel_vwnd sel), bcs),
                        features = FEATURES,
                        colorbar_label = Some ''2-Meter Dewpoint (Celsius)''\<rparr>]\<rparr>"
    by blast
  from dew_select_Inr[OF s] obtain ts tw where
    t: "time_convert du = Inr ts" "time_where ts dates = Inr tw"
    and b: "tw < length (data_var du)" "tw < length (data_var dv)"
    and sel: "sel_uwnd sel = scale 0.514 (data_var du ! tw)"
      "sel_vwnd sel = scale 0.514 (data_var dv ! tw)"
    by auto
  have c: "axs < length (figures ws')"
    "barbs (figures ws' ! axs) = Some (lon2, lat2, slice2 (scale 0.514 (data_var du ! tw)),
        slice2 (scale 0.514 (data_var dv ! tw)), bcs)"
    unfolding w' ax by (simp_all add: sel)
  show "\<exists>du dv ts tw lon2 lat2 pu pv.
         files ws us = Some du \<and> files ws vs = Some dv \<and> time_convert du = Inr ts
         \<and> time_where ts dates = Inr tw
         \<and> tw < length (data_var du) \<and> tw < length (data_var dv)
         \<and> axs < length (figures ws')
         \<and> barbs (figures ws' ! axs) = Some (lon2, lat2, pu, pv, bcs)
         \<and> in_knots (data_var du ! tw) pu \<and> in_knots (data_var dv ! tw) pv"
    using f t b c in_knots_slice2_scale by blast
qed simp


theorem barbs_in_knots_witness:
  "(\<exists>du dv ts tw lw lon2 lat2 pu pv.
         files pressure_world ''uwnd.nc'' = Some du \<and> files pressure_world ''vwnd.nc'' = Some dv
         \<and> time_convert du = Inr ts
         \<and> time_where ts ''1800-01-01 03:00:00'' = Inr tw
         \<and> level_where (level_cast du) (level_var du) 500 = Inr lw
         \<and> barbs (figures (snd (weather_plot_hgt ''uwnd.nc'' ''vwnd.nc'' ''hgt.nc'' 500
               ''1800-01-01 03:00:00'' ''Reds'' ''darkblue'' None pressure_world)) ! 0)
             = Some (lon2, lat2, pu, pv, ''darkblue'')
         \<and> in_knots (data_var du ! tw ! lw) pu \<and> in_knots (data_var dv ! tw ! lw) pv)
   \<and> (\<exists>du dv ts tw lon2 lat2 pu pv.
         files surface_world ''uwnd.10m.nc'' = Some du
         \<and> files surface_world ''vwnd.10m.nc'' = Some dv \<and> time_convert du = Inr ts
         \<and> time_where ts ''1800-01-01 03:00:00'' = Inr tw
         \<and> barbs (figures (snd (weather_plot_dew ''uwnd.10m.nc'' ''vwnd.10m.nc'' ''dpt.2m.nc''
               ''1800-01-01 03:00:00'' ''Greens'' ''blue'' None surface_world)) ! 0)
             = Some (lon2, lat2, pu, pv, ''blue'')
         \<and> in_knots (data_var du ! tw) pu \<and> in_knots (data_var dv ! tw) pv)"
proof (intro conjI)
  have p: "weather_plot_hgt ''uwnd.nc'' ''vwnd.nc'' ''hgt.nc'' 500 ''1800-01-01 03:00:00''
             ''Reds'' ''darkblue'' None pressure_world
           = (Inr ([[5920, 5930, 5940], [5950, 5960, 5970]], 0),
              snd (weather_plot_hgt ''uwnd.nc'' ''vwnd.nc'' ''hgt.nc'' 500 ''1800-01-01 03:00:00''
                     ''Reds'' ''darkblue'' None pressure_world))"
    by (simp add: pressure_call)
  from barbs_in_knots[THEN conjunct1, rule_format, OF p]
  show "\<exists>du dv ts tw lw lon2 lat2 pu pv.
         files pressure_world ''uwnd.nc'' = Some du \<and> files pressure_world ''vwnd.nc'' = Some dv
         \<and> time_convert du = Inr ts
         \<and> time_where ts ''1800-01-01 03:00:00'' = Inr tw
         \<and> level_where (level_cast du) (level_var du) 500 = Inr lw
         \<and> barbs (figures (snd (weather_plot_hgt ''uwnd.nc'' ''vwnd.nc'' ''hgt.nc'' 500
               ''1800-01-01 03:00:00'' ''Reds'' ''darkblue'' None pressure_world)) ! 0)
             = Some (lon2, lat2, pu, pv, ''darkblue'')
         \<and> in_knots (data_var du ! tw ! lw) pu \<and> in_knots (data_var dv ! tw ! lw) pv"
    by blast
next
  have p: "weather_plot_dew ''uwnd.10m.nc'' ''vwnd.10m.nc'' ''dpt.2m.nc'' ''1800-01-01 03:00:00''
             ''Greens'' ''blue'' None surface_world
           = (Inr ([[273.15, 292, 293], [294, 295, 296]], 0),
              snd (weather_plot_dew ''uwnd.10m.nc'' ''vwnd.10m.nc'' ''dpt.2m.nc''
                     ''1800-01-01 03:00:00'' ''Greens'' ''blue'' None surface_world))"
    by (simp add: surface_call)
  from barbs_in_knots[THEN conjunct2, THEN conjunct1, rule_format, OF p]
  show "\<exists>du dv ts tw lon2 lat2 pu pv.
         files surface_world ''uwnd.10m.nc'' = Some du
         \<and> files surface_world ''vwnd.10m.nc'' = Some dv \<and> time_convert du = Inr ts
         \<and> time_where ts ''1800-01-01 03:00:00'' = Inr tw
         \<and> barbs (figures (snd (weather_plot_dew ''uwnd.10m.nc'' ''vwnd.10m.nc'' ''dpt.2m.nc''
               ''1800-01-01 03:00:00'' ''Greens'' ''blue'' None surface_world)) ! 0)
             = Some (lon2, lat2, pu, pv, ''blue'')
         \<and> in_knots (data_var du ! tw) pu \<and> in_knots (data_var dv ! tw) pv"
    by blast
qed

lemma slice2_coords_Inr: "slice2_coords c = Inr c2 \<Longrightarrow> \<exists>g. c = Axis2 g"
  by (cases c) simp_all

lemma check_xyz_Axis2:
  assumes "check_xyz (Axis2 gx) (Axis2 gy) z = None"
  shows "shape gx = shape z \<and> shape gy = shape z \<and> 2 \<le> fst (shape z) \<and> 2 \<le> snd (shape z)"
  using assms by (auto simp: check_xyz_def split: prod.splits if_splits)

lemma shape_shift: "shape (shift c g) = shape g"
  by (cases g) (simp_all add: shape_def shift_def)

text \<open>
  Claim C6, amended. In a call to either renderer that returns, the \<^verbatim>\<open>lat\<close> and \<^verbatim>\<open>lon\<close>
  arrays of the u-wind file are two-axis arrays of the shape of the returned array
  (\<^verbatim>\<open>contourf\<close> and the slices of the barbs have accepted them): the returned array has
  \<^verbatim>\<open>len(lat)\<close> rows and as many columns as a row of \<^verbatim>\<open>lon\<close> has entries, at least two
  of each.
\<close>

theorem returned_shape:
  "(weather_plot_hgt u v h level date cmap bc ext w = (Inr (hgt, ax), w') \<longrightarrow>
      (\<exists>du glat glon.
         files w u = Some du \<and> lat_var du = Axis2 glat \<and> lon_var du = Axis2 glon
         \<and> shape hgt = shape glat \<and> shape hgt = shape glon
         \<and> shape hgt = (len (lat_var du), snd (shape glon))
         \<and> 2 \<le> fst (shape hgt) \<and> 2 \<le> snd (shape hgt)))
   \<and> (weather_plot_dew us vs ds dates cmaps bcs exts ws = (Inr (dew, axs), ws') \<longrightarrow>
      (\<exists>du glat glon.
         files ws us = Some du \<and> lat_var du = Axis2 glat \<and> lon_var du = Axis2 glon
         \<and> shape dew = shape glat \<and> shape dew = shape glon
         \<and> shape dew = (len (lat_var du), snd (shape glon))
         \<and> 2 \<le> fst (shape dew) \<and> 2 \<le> snd (shape dew)))"
proof (intro conjI impI)
  assume a: "weather_plot_hgt u v h level date cmap bc ext w = (Inr (hgt, ax), w')"
  from weather_plot_hgt_returns[OF a] obtain du dv dh sel lon2 lat2 where
    f: "files w u = Some du"
    and s: "hgt_select du dv dh level date = Inr sel" and r: "hgt = sel_field sel"
    and k: "check_xyz (sel_lon sel) (sel_lat sel) (sel_field sel) = None"
    and c: "slice2_coords (sel_lon sel) = Inr lon2" "slice2_coords (sel_lat sel) = Inr lat2"
    by blast
  from hgt_select_Inr[OF s] have sel: "sel_lat sel = lat_var du" "sel_lon sel = lon_var du"
    by auto
  from c sel obtain glat glon where g: "lat_var du = Axis2 glat" "lon_var du = Axis2 glon"
    using slice2_coords_Inr by metis
  from k have "check_xyz (Axis2 glon) (Axis2 glat) hgt = None" by (simp add: sel g r)
  from check_xyz_Axis2[OF this]
  have sh: "shape glon = shape hgt" "shape glat = shape hgt"
    "2 \<le> fst (shape hgt)" "2 \<le> snd (shape hgt)"
    by simp_all
  have "fst (shape hgt) = length glat" using sh(2) by (simp add: shape_def)
  then have "shape hgt = (len (lat_var du), snd (shape glon))"
    using sh(1) g by (simp add: prod_eq_iff)
  then show "\<exists>du glat glon.
         files w u = Some du \<and> lat_var du = Axis2 glat \<and> lon_var du = Axis2 glon
         \<and> shape hgt = shape glat \<and> shape hgt = shape glon
         \<and> shape hgt = (len (lat_var du), snd (shape glon))
         \<and> 2 \<le> fst (shape hgt) \<and> 2 \<le> snd (shape hgt)"
    using f g sh by auto
next
  assume a: "weather_plot_dew us vs ds dates cmaps bcs exts ws = (Inr (dew, axs), ws')"
  from weather_plot_dew_returns[OF a] obtain du dv dd sel lon2 lat2 where
    f: "files ws us = Some du"
    and s: "dew_select du dv dd dates = Inr sel" and r: "dew = sel_field sel"
    and k: "check_xyz (sel_lon sel) (sel_lat sel) (shift 273.15 (sel_field sel)) = None"
    and c: "slice2_coords (sel_lon sel) = Inr lon2" "slice2_coords (sel_lat sel) = Inr lat2"
    by blast
  from dew_select_Inr[OF s] have sel: "sel_lat sel = lat_var du" "sel_lon sel = lon_var du"
    by auto
  from c sel obtain glat glon where g: "lat_var du = Axis2 glat" "lon_var du = Axis2 glon"
    using slice2_coords_Inr by metis
  from k have "check_xyz (Axis2 glon) (Axis2 glat) (shift 273.15 dew) = None"
    by (simp add: sel g r)
  from check_xyz_Axis2[OF this]
  have sh: "shape glon = shape dew" "shape glat = shape dew"
    "2 \<le> fst (shape dew)" "2 \<le> snd (shape dew)"
    by (simp_all add: shape_shift)
  have "fst (shape dew) = length glat" using sh(2) by (simp add: shape_def)
  then have "shape dew = (len (lat_var du), snd (shape glon))"
    using sh(1) g by (simp add: prod_eq_iff)
  then show "\<exists>du glat glon.
         files ws us = Some du \<and> lat_var du = Axis2 glat \<and> lon_var du = Axis2 glon
         \<and> shape dew = shape glat \<and> shape dew = shape glon
         \<and> shape dew = (len (lat_var du), snd (shape glon))
         \<and> 2 \<le> fst (shape dew) \<and> 2 \<le> snd (shape dew)"
    using f g sh by auto
qed

theorem returned_shape_witness:
  "(\<exists>du glat glon.
         files pressure_world ''uwnd.nc'' = Some du
         \<and> lat_var du = Axis2 glat \<and> lon_var du = Axis2 glon
         \<and> shape [[5920, 5930, 5940], [5950, 5960, 5970 :: real]] = shape glat
         \<and> shape [[5920, 5930, 5940], [5950, 5960, 5970 :: real]]
             = (len (lat_var du), snd (shape glon)))
   \<and> (\<exists>du glat glon.
         files surface_world ''uwnd.10m.nc'' = Some du
         \<and> lat_var du = Axis2 glat \<and> lon_var du = Axis2 glon
         \<and> shape [[273.15, 292, 293], [294, 295, 296 :: real]] = shape glat
         \<and> shape [[273.15, 292, 293], [294, 295, 296 :: real]]
             = (len (lat_var du), snd (shape glon)))"
proof (intro conjI)
  from returned_shape[THEN conjunct1, rule_format, OF pressure_call]
  show "\<exists>du glat glon.
         files pressure_world ''uwnd.nc'' = Some du
         \<and> lat_var du = Axis2 glat \<and> lon_var du = Axis2 glon
         \<and> shape [[5920, 5930, 5940], [5950, 5960, 5970 :: real]] = shape glat
         \<and> shape [[5920, 5930, 5940], [5950, 5960, 5970 :: real]]
             = (len (lat_var du), snd (shape glon))"
    by blast
next
  from returned_shape[THEN conjunct2, rule_format, OF surface_call]
  show "\<exists>du glat glon.
         files surface_world ''uwnd.10m.nc'' = Some du
         \<and> lat_var du = Axis2 glat \<and> lon_var du = Axis2 glon
         \<and> shape [[273.15, 292, 293], [294, 295, 296 :: real]] = shape glat
         \<and> shape [[273.15, 292, 293], [294, 295, 296 :: real]]
             = (len (lat_var du), snd (shape glon))"
    by blast
qed

text \<open>On a grid of two rows and three columns, \<^verbatim>\<open>len(lon)\<close> is 2 and the returned array
  has three columns.\<close>

theorem returned_shape_counterexample:
  "files pressure_world ''uwnd.nc'' = Some uwnd_nc
   \<and> fst (weather_plot_hgt ''uwnd.nc'' ''vwnd.nc'' ''hgt.nc'' 500 ''1800-01-01 03:00:00''
             ''Reds'' ''darkblue'' None pressure_world)
       = Inr ([[5920, 5930, 5940], [5950, 5960, 5970]], 0)
   \<and> shape [[5920, 5930, 5940], [5950, 5960, 5970 :: real]] = (2, 3)
   \<and> (len (lat_var uwnd_nc), len (lon_var uwnd_nc)) = (2, 2)"
  unfolding pressure_call
  by (simp add: pressure_files shape_def uwnd_nc_def lat23_def lon23_def)

subsection \<open>Failed lookups and the file handles\<close>

lemma time_where_absent: "(\<forall>t\<in>set ts. \<not> np_str_eq t date) \<Longrightarrow> time_where ts date = Inl IndexError"
  unfolding time_where_def by (rule first_index_none) auto

lemma level_where_absent:
  "cast level \<notin> set ls \<Longrightarrow> level_where cast ls level = Inl IndexError"
  unfolding level_where_def by (rule first_index_none) auto

lemma time_where_cases:
  "time_where ts date = Inl IndexError \<or> (\<exists>i. time_where ts date = Inr i)"
  unfolding time_where_def by (rule first_index_cases)

lemma hgt_select_lookup_fails:
  assumes "time_convert du = Inr ts" "(\<forall>t\<in>set ts. \<not> np_str_eq t date) \<or> level_cast du level \<notin> set (level_var du)"
  shows "hgt_select du dv dh level date = Inl IndexError"
proof (cases "\<forall>t\<in>set ts. \<not> np_str_eq t date")
  case True
  then show ?thesis by (simp add: hgt_select_def assms(1) time_where_absent)
next
  case False
  with assms(2) have "level_where (level_cast du) (level_var du) level = Inl IndexError"
    by (simp add: level_where_absent)
  then show ?thesis
    using time_where_cases[of ts date] by (auto simp: hgt_select_def assms(1))
qed

lemma dew_select_lookup_fails:
  assumes "time_convert du = Inr ts" "(\<forall>t\<in>set ts. \<not> np_str_eq t date)"
  shows "dew_select du dv dd date = Inl IndexError"
  using assms by (simp add: dew_select_def time_where_absent)

text \<open>A date that carries a trailing NUL character is found, and so is a level that the
  conversion to the type of the axis maps onto an entry.\<close>

lemma time_where_trailing_nul:
  "time_where [''1800-01-01 00:00:00'', ''1800-01-01 03:00:00'']
     (''1800-01-01 03:00:00'' @ [CHR 0x00]) = Inr 1"
  by (simp add: time_where_def first_index_def np_where_def np_str_eq_def rstrip_nul_def)

lemma level_where_rounded:
  "level_where (\<lambda>l. if l = 501 then 500 else of_int l) [850, 500] 501 = Inr 1"
  by (simp add: level_where_def first_index_def np_where_def)

text \<open>
  Claim C2. When the three files open and the time axis decodes, a date that matches no
  entry of the time axis in the comparison of NumPy (in the pressure-level renderer also
  a level that, converted to the type of the level axis, equals no entry of it) makes the
  call raise \<^verbatim>\<open>IndexError\<close>, and the list of figures is as it
  was before the call: the error leaves the renderer before \<^verbatim>\<open>plt.subplots\<close> is reached.
\<close>

theorem lookup_failure_raises_before_plotting:
  "(files w u = Some du \<and> files w v = Some dv \<and> files w h = Some dh
      \<and> time_convert du = Inr ts
      \<and> ((\<forall>t\<in>set ts. \<not> np_str_eq t date) \<or> level_cast du level \<notin> set (level_var du)) \<longrightarrow>
        fst (weather_plot_hgt u v h level date cmap bc ext w) = Inl IndexError
        \<and> figures (snd (weather_plot_hgt u v h level date cmap bc ext w)) = figures w)
   \<and> (files ws us = Some dus \<and> files ws vs = Some dvs \<and> files ws ds = Some dds
      \<and> time_convert dus = Inr tss \<and> (\<forall>t\<in>set tss. \<not> np_str_eq t dates) \<longrightarrow>
        fst (weather_plot_dew us vs ds dates cmaps bcs exts ws) = Inl IndexError
        \<and> figures (snd (weather_plot_dew us vs ds dates cmaps bcs exts ws)) = figures ws)"
proof (intro conjI impI; elim conjE)
  assume f: "files w u = Some du" "files w v = Some dv" "files w h = Some dh"
    and t: "time_convert du = Inr ts"
    and l: "(\<forall>t\<in>set ts. \<not> np_str_eq t date) \<or> level_cast du level \<notin> set (level_var du)"
  have s: "hgt_select du dv dh level date = Inl IndexError"
    using t l by (rule hgt_select_lookup_fails)
  show "fst (weather_plot_hgt u v h level date cmap bc ext w) = Inl IndexError"
    unfolding weather_plot_hgt_present[OF f] s by simp
  show "figures (snd (weather_plot_hgt u v h level date cmap bc ext w)) = figures w"
    unfolding weather_plot_hgt_present[OF f] s by simp
next
  assume f: "files ws us = Some dus" "files ws vs = Some dvs" "files ws ds = Some dds"
    and t: "time_convert dus = Inr tss" and l: "(\<forall>t\<in>set tss. \<not> np_str_eq t dates)"
  have s: "dew_select dus dvs dds dates = Inl IndexError"
    using t l by (rule dew_select_lookup_fails)
  show "fst (weather_plot_dew us vs ds dates cmaps bcs exts ws) = Inl IndexError"
    unfolding weather_plot_dew_present[OF f] s by simp
  show "figures (snd (weather_plot_dew us vs ds dates cmaps bcs exts ws)) = figures ws"
    unfolding weather_plot_dew_present[OF f] s by simp
qed

lemma surface_time:
  "time_convert uwnd10m_nc = Inr [''1800-01-01 00:00:00'', ''1800-01-01 03:00:00'']"
  by code_simp

theorem lookup_failure_raises_before_plotting_witness:
  "fst (weather_plot_hgt ''uwnd.nc'' ''vwnd.nc'' ''hgt.nc'' 500 ''1800-01-01 06:00:00''
          ''Reds'' ''darkblue'' None pressure_world) = Inl IndexError
   \<and> figures (snd (weather_plot_hgt ''uwnd.nc'' ''vwnd.nc'' ''hgt.nc'' 500 ''1800-01-01 06:00:00''
          ''Reds'' ''darkblue'' None pressure_world)) = figures pressure_world
   \<and> fst (weather_plot_hgt ''uwnd.nc'' ''vwnd.nc'' ''hgt.nc'' 850 ''1800-01-01 03:00:00''
          ''Reds'' ''darkblue'' None pressure_world) = Inl IndexError
   \<and> figures (snd (weather_plot_hgt ''uwnd.nc'' ''vwnd.nc'' ''hgt.nc'' 850 ''1800-01-01 03:00:00''
          ''Reds'' ''darkblue'' None pressure_world)) = figures pressure_world
   \<and> fst (weather_plot_dew ''uwnd.10m.nc'' ''vwnd.10m.nc'' ''dpt.2m.nc'' ''1800-01-01 06:00:00''
          ''Greens'' ''blue'' None surface_world) = Inl IndexError
   \<and> figures (snd (weather_plot_dew ''uwnd.10m.nc'' ''vwnd.10m.nc'' ''dpt.2m.nc''
          ''1800-01-01 06:00:00'' ''Greens'' ''blue'' None surface_world)) = figures surface_world"
proof -
  have d: "(\<forall>t\<in>set [''1800-01-01 00:00:00'', ''1800-01-01 03:00:00'']. \<not> np_str_eq t ''1800-01-01 06:00:00'')"
    by (simp add: np_str_eq_def rstrip_nul_def)
  have l: "level_cast uwnd_nc 850 \<notin> set (level_var uwnd_nc)" by (simp add: uwnd_nc_def)
  note a = lookup_failure_raises_before_plotting[THEN conjunct1, rule_format]
  note b = lookup_failure_raises_before_plotting[THEN conjunct2, rule_format]
  have p1: "files pressure_world ''uwnd.nc'' = Some uwnd_nc
      \<and> files pressure_world ''vwnd.nc'' = Some vwnd_nc
      \<and> files pressure_world ''hgt.nc'' = Some hgt_nc
      \<and> time_convert uwnd_nc = Inr [''1800-01-01 00:00:00'', ''1800-01-01 03:00:00'']
      \<and> ((\<forall>t\<in>set [''1800-01-01 00:00:00'', ''1800-01-01 03:00:00'']. \<not> np_str_eq t ''1800-01-01 06:00:00'')
          \<or> level_cast uwnd_nc 500 \<notin> set (level_var uwnd_nc))"
    using pressure_files pressure_time d by simp
  have p2: "files pressure_world ''uwnd.nc'' = Some uwnd_nc
      \<and> files pressure_world ''vwnd.nc'' = Some vwnd_nc
      \<and> files pressure_world ''hgt.nc'' = Some hgt_nc
      \<and> time_convert uwnd_nc = Inr [''1800-01-01 00:00:00'', ''1800-01-01 03:00:00'']
      \<and> ((\<forall>t\<in>set [''1800-01-01 00:00:00'', ''1800-01-01 03:00:00'']. \<not> np_str_eq t ''1800-01-01 03:00:00'')
          \<or> level_cast uwnd_nc 850 \<notin> set (level_var uwnd_nc))"
    using pressure_files pressure_time l by simp
  have p3: "files surface_world ''uwnd.10m.nc'' = Some uwnd10m_nc
      \<and> files surface_world ''vwnd.10m.nc'' = Some vwnd10m_nc
      \<and> files surface_world ''dpt.2m.nc'' = Some dpt2m_nc
      \<and> time_convert uwnd10m_nc = Inr [''1800-01-01 00:00:00'', ''1800-01-01 03:00:00'']
      \<and> (\<forall>t\<in>set [''1800-01-01 00:00:00'', ''1800-01-01 03:00:00'']. \<not> np_str_eq t ''1800-01-01 06:00:00'')"
    using surface_files surface_time d by simp
  have 1: "fst (weather_plot_hgt ''uwnd.nc'' ''vwnd.nc'' ''hgt.nc'' 500 ''1800-01-01 06:00:00''
          ''Reds'' ''darkblue'' None pressure_world) = Inl IndexError
   \<and> figures (snd (weather_plot_hgt ''uwnd.nc'' ''vwnd.nc'' ''hgt.nc'' 500 ''1800-01-01 06:00:00''
          ''Reds'' ''darkblue'' None pressure_world)) = figures pressure_world"
    by (rule a[OF p1])
  have 2: "fst (weather_plot_hgt ''uwnd.nc'' ''vwnd.nc'' ''hgt.nc'' 850 ''1800-01-01 03:00:00''
          ''Reds'' ''darkblue'' None pressure_world) = Inl IndexError
   \<and> figures (snd (weather_plot_hgt ''uwnd.nc'' ''vwnd.nc'' ''hgt.nc'' 850 ''1800-01-01 03:00:00''
          ''Reds'' ''darkblue'' None pressure_world)) = figures pressure_world"
    by (rule a[OF p2])
  have 3: "fst (weather_plot_dew ''uwnd.10m.nc'' ''vwnd.10m.nc'' ''dpt.2m.nc'' ''1800-01-01 06:00:00''
          ''Greens'' ''blue'' None surface_world) = Inl IndexError
   \<and> figures (snd (weather_plot_dew ''uwnd.10m.nc'' ''vwnd.10m.nc'' ''dpt.2m.nc''
          ''1800-01-01 06:00:00'' ''Greens'' ''blue'' None surface_world)) = figures surface_world"
    by (rule b[OF p3])
  show ?thesis using 1 2 3 by blast
qed

lemma draw_handles: "handles (snd (draw field levels label sel cmap bc ext w)) = handles w"
  unfolding draw_eq by (simp split: sum.splits option.splits)

lemma draw_files: "files (snd (draw field levels label sel cmap bc ext w)) = files w"
  unfolding draw_eq by (simp split: sum.splits option.splits)

lemma handles_after_case:
  "handles (snd (case draw field levels label sel cmap bc ext w of
                   (Inl e, w2) \<Rightarrow> (Inl e, w2)
                 | (Inr ax, w2) \<Rightarrow> (Inr (g ax), w2))) = handles w"
  unfolding draw_eq by (simp split: sum.splits option.splits)

lemma pressure_files_1d:
  "files pressure_world ''uwnd.1d.nc'' = Some uwnd_1d_nc"
  "files pressure_world ''vwnd.nc'' = Some vwnd_nc"
  "files pressure_world ''hgt.nc'' = Some hgt_nc"
  by (simp_all add: pressure_world_def)

lemma pressure_select_1d:
  "hgt_select uwnd_1d_nc vwnd_nc hgt_nc 500 ''1800-01-01 03:00:00'' =
     Inr \<lparr>sel_uwnd = [[1, 0, 2], [0, 0, 0]], sel_vwnd = [[- 1, 0, 0], [0, 0, 0]],
          sel_field = [[5920, 5930, 5940], [5950, 5960, 5970]],
          sel_lat = Axis1 [30, 31], sel_lon = Axis1 [- 90, - 89, - 88]\<rparr>"
  by code_simp

text \<open>
  Claim C3, amended. In a call whose three files open, the files are closed exactly when
  the lookups and the reads of the three slices have all succeeded: then the plotting part
  starts in a world in which the three handles are closed and no figure has been added,
  and the handles are closed when the call ends, whether the plotting returns or raises.
  When the lookup of the date or of the level fails, or a slice cannot be read, the error
  leaves the call with the three handles open.
\<close>

theorem files_closed_before_plotting:
  "(files w u = Some du \<and> files w v = Some dv \<and> files w h = Some dh \<longrightarrow>
      (\<forall>sel. hgt_select du dv dh level date = Inr sel \<longrightarrow>
         (\<exists>wc. handles wc = handles w @ [(u, False), (v, False), (h, False)]
            \<and> figures wc = figures w
            \<and> weather_plot_hgt u v h level date cmap bc ext w =
                (case draw (sel_field sel) height_range
                        (str_int level @ '' mb Geopotential Height (meters)'')
                        sel cmap bc ext wc of
                   (Inl e, w2) \<Rightarrow> (Inl e, w2)
                 | (Inr ax, w2) \<Rightarrow> (Inr (sel_field sel, ax), w2)))
         \<and> handles (snd (weather_plot_hgt u v h level date cmap bc ext w))
             = handles w @ [(u, False), (v, False), (h, False)])
      \<and> (\<forall>e. hgt_select du dv dh level date = Inl e \<longrightarrow>
            weather_plot_hgt u v h level date cmap bc ext w =
              (Inl e, w\<lparr>handles := handles w @ [(u, True), (v, True), (h, True)]\<rparr>))
      \<and> (\<forall>ts. time_convert du = Inr ts
              \<and> ((\<forall>t\<in>set ts. \<not> np_str_eq t date) \<or> level_cast du level \<notin> set (level_var du)) \<longrightarrow>
            hgt_select du dv dh level date = Inl IndexError))
   \<and> (files ws us = Some dus \<and> files ws vs = Some dvs \<and> files ws ds = Some dds \<longrightarrow>
      (\<forall>sel. dew_select dus dvs dds dates = Inr sel \<longrightarrow>
         (\<exists>wc. handles wc = handles ws @ [(us, False), (vs, False), (ds, False)]
            \<and> figures wc = figures ws
            \<and> weather_plot_dew us vs ds dates cmaps bcs exts ws =
                (case draw (shift 273.15 (sel_field sel)) dew_range
                        ''2-Meter Dewpoint (Celsius)'' sel cmaps bcs exts wc of
                   (Inl e, w2) \<Rightarrow> (Inl e, w2)
                 | (Inr ax, w2) \<Rightarrow> (Inr (sel_field sel, ax), w2)))
         \<and> handles (snd (weather_plot_dew us vs ds dates cmaps bcs exts ws))
             = handles ws @ [(us, False), (vs, False), (ds, False)])
      \<and> (\<forall>e. dew_select dus dvs dds dates = Inl e \<longrightarrow>
            weather_plot_dew us vs ds dates cmaps bcs exts ws =
              (Inl e, ws\<lparr>handles := handles ws @ [(us, True), (vs, True), (ds, True)]\<rparr>))
      \<and> (\<forall>ts. time_convert dus = Inr ts \<and> (\<forall>t\<in>set ts. \<not> np_str_eq t dates) \<longrightarrow>
            dew_select dus dvs dds dates = Inl IndexError))"
proof (intro conjI impI allI; (elim conjE)?)
  fix sel
  assume f: "files w u = Some du" "files w v = Some dv" "files w h = Some dh"
    and s: "hgt_select du dv dh level date = Inr sel"
  let ?wc = "w\<lparr>handles := handles w @ [(u, False), (v, False), (h, False)]\<rparr>"
  have "handles ?wc = handles w @ [(u, False), (v, False), (h, False)]" "figures ?wc = figures w"
    by simp_all
  moreover have "weather_plot_hgt u v h level date cmap bc ext w =
                (case draw (sel_field sel) height_range
                        (str_int level @ '' mb Geopotential Height (meters)'')
                        sel cmap bc ext ?wc of
                   (Inl e, w2) \<Rightarrow> (Inl e, w2)
                 | (Inr ax, w2) \<Rightarrow> (Inr (sel_field sel, ax), w2))"
    unfolding weather_plot_hgt_present[OF f] s by simp
  ultimately show "\<exists>wc. handles wc = handles w @ [(u, False), (v, False), (h, False)]
            \<and> figures wc = figures w
            \<and> weather_plot_hgt u v h level date cmap bc ext w =
                (case draw (sel_field sel) height_range
                        (str_int level @ '' mb Geopotential Height (meters)'')
                        sel cmap bc ext wc of
                   (Inl e, w2) \<Rightarrow> (Inl e, w2)
                 | (Inr ax, w2) \<Rightarrow> (Inr (sel_field sel, ax), w2))"
    by blast
  show "handles (snd (weather_plot_hgt u v h level date cmap bc ext w))
             = handles w @ [(u, False), (v, False), (h, False)]"
    unfolding weather_plot_hgt_present[OF f] s by (simp add: handles_after_case)
next
  fix e
  assume f: "files w u = Some du" "files w v = Some dv" "files w h = Some dh"
    and s: "hgt_select du dv dh level date = Inl e"
  show "weather_plot_hgt u v h level date cmap bc ext w =
              (Inl e, w\<lparr>handles := handles w @ [(u, True), (v, True), (h, True)]\<rparr>)"
    unfolding weather_plot_hgt_present[OF f] s by simp
next
  fix ts
  assume "time_convert du = Inr ts" "(\<forall>t\<in>set ts. \<not> np_str_eq t date) \<or> level_cast du level \<notin> set (level_var du)"
  then show "hgt_select du dv dh level date = Inl IndexError"
    by (rule hgt_select_lookup_fails)
next
  fix sel
  assume f: "files ws us = Some dus" "files ws vs = Some dvs" "files ws ds = Some dds"
    and s: "dew_select dus dvs dds dates = Inr sel"
  let ?wc = "ws\<lparr>handles := handles ws @ [(us, False), (vs, False), (ds, False)]\<rparr>"
  have "handles ?wc = handles ws @ [(us, False), (vs, False), (ds, False)]"
    "figures ?wc = figures ws"
    by simp_all
  moreover have "weather_plot_dew us vs ds dates cmaps bcs exts ws =
                (case draw (shift 273.15 (sel_field sel)) dew_range
                        ''2-Meter Dewpoint (Celsius)'' sel cmaps bcs exts ?wc of
                   (Inl e, w2) \<Rightarrow> (Inl e, w2)
                 | (Inr ax, w2) \<Rightarrow> (Inr (sel_field sel, ax), w2))"
    unfolding weather_plot_dew_present[OF f] s by simp
  ultimately show "\<exists>wc. handles wc = handles ws @ [(us, False), (vs, False), (ds, False)]
            \<and> figures wc = figures ws
            \<and> weather_plot_dew us vs ds dates cmaps bcs exts ws =
                (case draw (shift 273.15 (sel_field sel)) dew_range
                        ''2-Meter Dewpoint (Celsius)'' sel cmaps bcs exts wc of
                   (Inl e, w2) \<Rightarrow> (Inl e, w2)
                 | (Inr ax, w2) \<Rightarrow> (Inr (sel_field sel, ax), w2))"
    by blast
  show "handles (snd (weather_plot_dew us vs ds dates cmaps bcs exts ws))
             = handles ws @ [(us, False), (vs, False), (ds, False)]"
    unfolding weather_plot_dew_present[OF f] s by (simp add: handles_after_case)
next
  fix e
  assume f: "files ws us = Some dus" "files ws vs = Some dvs" "files ws ds = Some dds"
    and s: "dew_select dus dvs dds dates = Inl e"
  show "weather_plot_dew us vs ds dates cmaps bcs exts ws =
              (Inl e, ws\<lparr>handles := handles ws @ [(us, True), (vs, True), (ds, True)]\<rparr>)"
    unfolding weather_plot_dew_present[OF f] s by simp
next
  fix ts
  assume "time_convert dus = Inr ts" "(\<forall>t\<in>set ts. \<not> np_str_eq t dates)"
  then show "dew_select dus dvs dds dates = Inl IndexError"
    by (rule dew_select_lookup_fails)
qed


lemma pressure_call_1d:
  "weather_plot_hgt ''uwnd.1d.nc'' ''vwnd.nc'' ''hgt.nc'' 500 ''1800-01-01 03:00:00''
      ''Reds'' ''darkblue'' None pressure_world =
   (Inl IndexError,
    pressure_world\<lparr>handles := [(''uwnd.1d.nc'', False), (''vwnd.nc'', False), (''hgt.nc'', False)],
       figures := [\<lparr>extent = None,
          contourf = Some (Axis1 [- 90, - 89, - 88], Axis1 [30, 31],
                           [[5920, 5930, 5940], [5950, 5960, 5970]], height_range, ''Reds''),
          barbs = None, features = [], colorbar_label = None\<rparr>]\<rparr>)"
  unfolding weather_plot_hgt_present[OF pressure_files_1d] pressure_select_1d draw_eq
  by (simp add: pressure_world_def contour_stage_def check_xyz_def shape_def)

theorem files_closed_before_plotting_witness:
  "handles (snd (weather_plot_hgt ''uwnd.nc'' ''vwnd.nc'' ''hgt.nc'' 500 ''1800-01-01 03:00:00''
                   ''Reds'' ''darkblue'' None pressure_world))
     = [(''uwnd.nc'', False), (''vwnd.nc'', False), (''hgt.nc'', False)]
   \<and> fst (weather_plot_hgt ''uwnd.1d.nc'' ''vwnd.nc'' ''hgt.nc'' 500 ''1800-01-01 03:00:00''
                   ''Reds'' ''darkblue'' None pressure_world) = Inl IndexError
   \<and> handles (snd (weather_plot_hgt ''uwnd.1d.nc'' ''vwnd.nc'' ''hgt.nc'' 500
                   ''1800-01-01 03:00:00'' ''Reds'' ''darkblue'' None pressure_world))
     = [(''uwnd.1d.nc'', False), (''vwnd.nc'', False), (''hgt.nc'', False)]
   \<and> weather_plot_hgt ''uwnd.nc'' ''vwnd.nc'' ''hgt.nc'' 500 ''1800-01-01 06:00:00''
                   ''Reds'' ''darkblue'' None pressure_world
     = (Inl IndexError,
        pressure_world\<lparr>handles := [(''uwnd.nc'', True), (''vwnd.nc'', True), (''hgt.nc'', True)]\<rparr>)
   \<and> handles (snd (weather_plot_dew ''uwnd.10m.nc'' ''vwnd.10m.nc'' ''dpt.2m.nc''
                   ''1800-01-01 03:00:00'' ''Greens'' ''blue'' None surface_world))
     = [(''uwnd.10m.nc'', False), (''vwnd.10m.nc'', False), (''dpt.2m.nc'', False)]
   \<and> weather_plot_dew ''uwnd.10m.nc'' ''vwnd.10m.nc'' ''dpt.2m.nc'' ''1800-01-01 06:00:00''
                   ''Greens'' ''blue'' None surface_world
     = (Inl IndexError,
        surface_world\<lparr>handles := [(''uwnd.10m.nc'', True), (''vwnd.10m.nc'', True),
                                  (''dpt.2m.nc'', True)]\<rparr>)"
proof -
  have pf: "files pressure_world ''uwnd.nc'' = Some uwnd_nc
      \<and> files pressure_world ''vwnd.nc'' = Some vwnd_nc
      \<and> files pressure_world ''hgt.nc'' = Some hgt_nc"
    using pressure_files by simp
  have pf1: "files pressure_world ''uwnd.1d.nc'' = Some uwnd_1d_nc
      \<and> files pressure_world ''vwnd.nc'' = Some vwnd_nc
      \<and> files pressure_world ''hgt.nc'' = Some hgt_nc"
    using pressure_files_1d by simp
  have sf: "files surface_world ''uwnd.10m.nc'' = Some uwnd10m_nc
      \<and> files surface_world ''vwnd.10m.nc'' = Some vwnd10m_nc
      \<and> files surface_world ''dpt.2m.nc'' = Some dpt2m_nc"
    using surface_files by simp
  note P = files_closed_before_plotting[THEN conjunct1, THEN mp, OF pf]
  note P1 = files_closed_before_plotting[THEN conjunct1, THEN mp, OF pf1]
  note S = files_closed_before_plotting[THEN conjunct2, THEN mp, OF sf]
  have h0: "handles pressure_world = []" "handles surface_world = []"
    by (simp_all add: pressure_world_def surface_world_def)
  have 1: "handles (snd (weather_plot_hgt ''uwnd.nc'' ''vwnd.nc'' ''hgt.nc'' 500
                   ''1800-01-01 03:00:00'' ''Reds'' ''darkblue'' None pressure_world))
     = [(''uwnd.nc'', False), (''vwnd.nc'', False), (''hgt.nc'', False)]"
    using P[THEN conjunct1, THEN spec, THEN mp, OF pressure_select, THEN conjunct2]
    by (simp add: h0)
  have 2: "handles (snd (weather_plot_hgt ''uwnd.1d.nc'' ''vwnd.nc'' ''hgt.nc'' 500
                   ''1800-01-01 03:00:00'' ''Reds'' ''darkblue'' None pressure_world))
     = [(''uwnd.1d.nc'', False), (''vwnd.nc'', False), (''hgt.nc'', False)]"
    using P1[THEN conjunct1, THEN spec, THEN mp, OF pressure_select_1d, THEN conjunct2]
    by (simp add: h0)
  have 3: "fst (weather_plot_hgt ''uwnd.1d.nc'' ''vwnd.nc'' ''hgt.nc'' 500 ''1800-01-01 03:00:00''
                   ''Reds'' ''darkblue'' None pressure_world) = Inl IndexError"
    by (simp add: pressure_call_1d)
  have d: "time_convert uwnd_nc = Inr [''1800-01-01 00:00:00'', ''1800-01-01 03:00:00'']
      \<and> ((\<forall>t\<in>set [''1800-01-01 00:00:00'', ''1800-01-01 03:00:00'']. \<not> np_str_eq t ''1800-01-01 06:00:00'')
           \<or> level_cast uwnd_nc 500 \<notin> set (level_var uwnd_nc))"
    using pressure_time by (simp add: np_str_eq_def rstrip_nul_def)
  have 4: "weather_plot_hgt ''uwnd.nc'' ''vwnd.nc'' ''hgt.nc'' 500 ''1800-01-01 06:00:00''
                   ''Reds'' ''darkblue'' None pressure_world
     = (Inl IndexError,
        pressure_world\<lparr>handles := [(''uwnd.nc'', True), (''vwnd.nc'', True), (''hgt.nc'', True)]\<rparr>)"
    using P[THEN conjunct2, THEN conjunct1, THEN spec, THEN mp,
        OF P[THEN conjunct2, THEN conjunct2, THEN spec, THEN mp, OF d]]
    by (simp add: h0)
  have 5: "handles (snd (weather_plot_dew ''uwnd.10m.nc'' ''vwnd.10m.nc'' ''dpt.2m.nc''
                   ''1800-01-01 03:00:00'' ''Greens'' ''blue'' None surface_world))
     = [(''uwnd.10m.nc'', False), (''vwnd.10m.nc'', False), (''dpt.2m.nc'', False)]"
    using S[THEN conjunct1, THEN spec, THEN mp, OF surface_select, THEN conjunct2]
    by (simp add: h0)
  have ds: "time_convert uwnd10m_nc = Inr [''1800-01-01 00:00:00'', ''1800-01-01 03:00:00'']
      \<and> (\<forall>t\<in>set [''1800-01-01 00:00:00'', ''1800-01-01 03:00:00'']. \<not> np_str_eq t ''1800-01-01 06:00:00'')"
    using surface_time by (simp add: np_str_eq_def rstrip_nul_def)
  have 6: "weather_plot_dew ''uwnd.10m.nc'' ''vwnd.10m.nc'' ''dpt.2m.nc'' ''1800-01-01 06:00:00''
                   ''Greens'' ''blue'' None surface_world
     = (Inl IndexError,
        surface_world\<lparr>handles := [(''uwnd.10m.nc'', True), (''vwnd.10m.nc'', True),
                                  (''dpt.2m.nc'', True)]\<rparr>)"
    using S[THEN conjunct2, THEN conjunct1, THEN spec, THEN mp,
        OF S[THEN conjunct2, THEN conjunct2, THEN spec, THEN mp, OF ds]]
    by (simp add: h0)
  show ?thesis using 1 2 3 4 5 6 by blast
qed

text \<open>
  The date is at index 1 of the time axis and the level at index 0 of the level axis, the
  v-wind file holds one time step: reading its slice raises, and the handles stay open.
\<close>

theorem files_closed_before_plotting_counterexample:
  "time_convert uwnd_nc = Inr [''1800-01-01 00:00:00'', ''1800-01-01 03:00:00'']
   \<and> time_where [''1800-01-01 00:00:00'', ''1800-01-01 03:00:00''] ''1800-01-01 03:00:00'' = Inr 1
   \<and> level_where (level_cast uwnd_nc) (level_var uwnd_nc) 500 = Inr 0
   \<and> fst (weather_plot_hgt ''uwnd.nc'' ''vwnd.short.nc'' ''hgt.nc'' 500 ''1800-01-01 03:00:00''
             ''Reds'' ''darkblue'' None pressure_world) = Inl IndexError
   \<and> is_open (snd (weather_plot_hgt ''uwnd.nc'' ''vwnd.short.nc'' ''hgt.nc'' 500
             ''1800-01-01 03:00:00'' ''Reds'' ''darkblue'' None pressure_world)) 0
   \<and> is_open (snd (weather_plot_hgt ''uwnd.nc'' ''vwnd.short.nc'' ''hgt.nc'' 500
             ''1800-01-01 03:00:00'' ''Reds'' ''darkblue'' None pressure_world)) 1
   \<and> is_open (snd (weather_plot_hgt ''uwnd.nc'' ''vwnd.short.nc'' ''hgt.nc'' 500
             ''1800-01-01 03:00:00'' ''Reds'' ''darkblue'' None pressure_world)) 2"
proof -
  have "time_where [''1800-01-01 00:00:00'', ''1800-01-01 03:00:00''] ''1800-01-01 03:00:00''
          = Inr 1"
    by (simp add: time_where_def first_index_def np_where_def np_str_eq_def rstrip_nul_def)
  moreover have "level_where (level_cast uwnd_nc) (level_var uwnd_nc) 500 = Inr 0"
    by (simp add: level_where_def first_index_def np_where_def uwnd_nc_def)
  ultimately show ?thesis
    unfolding pressure_call_short using pressure_time by (simp add: is_open_def)
qed

subsection \<open>Independence of the other files' coordinates and of earlier calls\<close>

lemma hgt_select_data_only:
  "data_var dv = data_var dv' \<Longrightarrow> data_var dh = data_var dh' \<Longrightarrow>
     hgt_select du dv dh level date = hgt_select du dv' dh' level date"
  by (simp add: hgt_select_def cong: sum.case_cong)

lemma dew_select_data_only:
  "data_var dv = data_var dv' \<Longrightarrow> data_var dd = data_var dd' \<Longrightarrow>
     dew_select du dv dd date = dew_select du dv' dd' date"
  by (simp add: dew_select_def cong: sum.case_cong)

lemma draw_figures_only:
  assumes "figures w1 = figures w2"
  shows "fst (draw field levels label sel cmap bc ext w1)
           = fst (draw field levels label sel cmap bc ext w2)"
    and "figures (snd (draw field levels label sel cmap bc ext w1))
           = figures (snd (draw field levels label sel cmap bc ext w2))"
  unfolding draw_eq using assms by (simp_all split: sum.splits option.splits)

lemma weather_plot_hgt_figures_only:
  assumes "files w1 u = Some du" "files w1 v = Some dv1" "files w1 h = Some dh1"
    and "files w2 u = Some du" "files w2 v = Some dv2" "files w2 h = Some dh2"
    and "data_var dv1 = data_var dv2" "data_var dh1 = data_var dh2"
    and "figures w1 = figures w2"
  shows "fst (weather_plot_hgt u v h level date cmap bc ext w1)
           = fst (weather_plot_hgt u v h level date cmap bc ext w2)
         \<and> figures (snd (weather_plot_hgt u v h level date cmap bc ext w1))
           = figures (snd (weather_plot_hgt u v h level date cmap bc ext w2))"
proof -
  have s: "hgt_select du dv1 dh1 level date = hgt_select du dv2 dh2 level date"
    using assms(7,8) by (rule hgt_select_data_only)
  show ?thesis
  proof (cases "hgt_select du dv2 dh2 level date")
    case (Inl e)
    then show ?thesis
      unfolding weather_plot_hgt_present[OF assms(1-3)] weather_plot_hgt_present[OF assms(4-6)] s
      using assms(9) by simp
  next
    case (Inr sel)
    let ?wa = "w1\<lparr>handles := handles w1 @ [(u, False), (v, False), (h, False)]\<rparr>"
    let ?wb = "w2\<lparr>handles := handles w2 @ [(u, False), (v, False), (h, False)]\<rparr>"
    have "figures ?wa = figures ?wb" using assms(9) by simp
    from draw_figures_only[OF this]
    show ?thesis
      unfolding weather_plot_hgt_present[OF assms(1-3)] weather_plot_hgt_present[OF assms(4-6)] s Inr
      by (simp add: split_beta split: sum.splits)
  qed
qed


lemma weather_plot_dew_figures_only:
  assumes "files w1 u = Some du" "files w1 v = Some dv1" "files w1 d = Some dd1"
    and "files w2 u = Some du" "files w2 v = Some dv2" "files w2 d = Some dd2"
    and "data_var dv1 = data_var dv2" "data_var dd1 = data_var dd2"
    and "figures w1 = figures w2"
  shows "fst (weather_plot_dew u v d date cmap bc ext w1)
           = fst (weather_plot_dew u v d date cmap bc ext w2)
         \<and> figures (snd (weather_plot_dew u v d date cmap bc ext w1))
           = figures (snd (weather_plot_dew u v d date cmap bc ext w2))"
proof -
  have s: "dew_select du dv1 dd1 date = dew_select du dv2 dd2 date"
    using assms(7,8) by (rule dew_select_data_only)
  show ?thesis
  proof (cases "dew_select du dv2 dd2 date")
    case (Inl e)
    then show ?thesis
      unfolding weather_plot_dew_present[OF assms(1-3)] weather_plot_dew_present[OF assms(4-6)] s
      using assms(9) by simp
  next
    case (Inr sel)
    let ?wa = "w1\<lparr>handles := handles w1 @ [(u, False), (v, False), (d, False)]\<rparr>"
    let ?wb = "w2\<lparr>handles := handles w2 @ [(u, False), (v, False), (d, False)]\<rparr>"
    have "figures ?wa = figures ?wb" using assms(9) by simp
    from draw_figures_only[OF this]
    show ?thesis
      unfolding weather_plot_dew_present[OF assms(1-3)] weather_plot_dew_present[OF assms(4-6)] s Inr
      by (simp add: split_beta split: sum.splits)
  qed
qed

lemma weather_plot_hgt_missing_figures:
  assumes "files w u = None \<or> files w v = None \<or> files w h = None"
  shows "figures (snd (weather_plot_hgt u v h level date cmap bc ext w)) = figures w"
  using assms
  by (auto simp: weather_plot_hgt_def open_files_def Dataset_def split: option.splits)

lemma weather_plot_dew_missing_figures:
  assumes "files w u = None \<or> files w v = None \<or> files w d = None"
  shows "figures (snd (weather_plot_dew u v d date cmap bc ext w)) = figures w"
  using assms
  by (auto simp: weather_plot_dew_def open_files_def Dataset_def split: option.splits)

text \<open>
  Claim C8. The time axis, the level axis and the latitude and longitude arrays are read
  from the u-wind file alone, and nothing compares them with those of the other two
  files. Hence two calls whose worlds hold the same u-wind file and the same data
  variables in the v-wind and scalar-field files, whatever the coordinate arrays of those
  two files, select the same indices and slices, end with the same result (an error or
  the returned field and plot handle) and draw the same figures.
\<close>

theorem coordinates_read_from_uwnd_only:
  "(files w1 u = files w2 u
      \<and> map_option data_var (files w1 v) = map_option data_var (files w2 v)
      \<and> map_option data_var (files w1 h) = map_option data_var (files w2 h)
      \<and> figures w1 = figures w2 \<longrightarrow>
        fst (weather_plot_hgt u v h level date cmap bc ext w1)
          = fst (weather_plot_hgt u v h level date cmap bc ext w2)
        \<and> figures (snd (weather_plot_hgt u v h level date cmap bc ext w1))
          = figures (snd (weather_plot_hgt u v h level date cmap bc ext w2)))
   \<and> hgt_select du (dv\<lparr>time_var := t1, level_var := l1, level_cast := c1,
             lat_var := a1, lon_var := o1\<rparr>)
        (dh\<lparr>time_var := t2, level_var := l2, level_cast := c2,
             lat_var := a2, lon_var := o2\<rparr>) level date
       = hgt_select du dv dh level date
   \<and> (files ws1 us = files ws2 us
      \<and> map_option data_var (files ws1 vs) = map_option data_var (files ws2 vs)
      \<and> map_option data_var (files ws1 ds) = map_option data_var (files ws2 ds)
      \<and> figures ws1 = figures ws2 \<longrightarrow>
        fst (weather_plot_dew us vs ds dates cmaps bcs exts ws1)
          = fst (weather_plot_dew us vs ds dates cmaps bcs exts ws2)
        \<and> figures (snd (weather_plot_dew us vs ds dates cmaps bcs exts ws1))
          = figures (snd (weather_plot_dew us vs ds dates cmaps bcs exts ws2)))
   \<and> dew_select dus (dvs\<lparr>time_var := t3, level_var := l3, level_cast := c3,
             lat_var := a3, lon_var := o3\<rparr>)
        (dds\<lparr>time_var := t4, level_var := l4, level_cast := c4,
             lat_var := a4, lon_var := o4\<rparr>) dates
       = dew_select dus dvs dds dates"
proof (intro conjI impI; (elim conjE)?)
  assume eq: "files w1 u = files w2 u"
    "map_option data_var (files w1 v) = map_option data_var (files w2 v)"
    "map_option data_var (files w1 h) = map_option data_var (files w2 h)"
    and fg: "figures w1 = figures w2"
  have "fst (weather_plot_hgt u v h level date cmap bc ext w1)
          = fst (weather_plot_hgt u v h level date cmap bc ext w2)
        \<and> figures (snd (weather_plot_hgt u v h level date cmap bc ext w1))
          = figures (snd (weather_plot_hgt u v h level date cmap bc ext w2))"
  proof (cases "files w1 u = None \<or> files w1 v = None \<or> files w1 h = None")
    case True
    then have m1: "files w1 u = None \<or> files w1 v = None \<or> files w1 h = None" .
    then have m2: "files w2 u = None \<or> files w2 v = None \<or> files w2 h = None"
      using eq by (metis map_option_is_None)
    show ?thesis
      using weather_plot_hgt_missing[OF m1] weather_plot_hgt_missing[OF m2]
        weather_plot_hgt_missing_figures[OF m1] weather_plot_hgt_missing_figures[OF m2] fg
      by simp
  next
    case False
    then obtain du dv1 dh1 where f1: "files w1 u = Some du" "files w1 v = Some dv1"
      "files w1 h = Some dh1" by auto
    from eq f1 obtain dv2 dh2 where f2: "files w2 u = Some du" "files w2 v = Some dv2"
      "files w2 h = Some dh2" and d: "data_var dv1 = data_var dv2" "data_var dh1 = data_var dh2"
      by (auto simp: map_option_case split: option.splits)
    show ?thesis by (rule weather_plot_hgt_figures_only[OF f1 f2 d fg])
  qed
  then show "fst (weather_plot_hgt u v h level date cmap bc ext w1)
          = fst (weather_plot_hgt u v h level date cmap bc ext w2)"
    and "figures (snd (weather_plot_hgt u v h level date cmap bc ext w1))
          = figures (snd (weather_plot_hgt u v h level date cmap bc ext w2))"
    by simp_all
next
  show "hgt_select du (dv\<lparr>time_var := t1, level_var := l1, level_cast := c1,
             lat_var := a1, lon_var := o1\<rparr>)
        (dh\<lparr>time_var := t2, level_var := l2, level_cast := c2,
             lat_var := a2, lon_var := o2\<rparr>) level date
       = hgt_select du dv dh level date"
    by (rule hgt_select_data_only) simp_all
next
  assume eq: "files ws1 us = files ws2 us"
    "map_option data_var (files ws1 vs) = map_option data_var (files ws2 vs)"
    "map_option data_var (files ws1 ds) = map_option data_var (files ws2 ds)"
    and fg: "figures ws1 = figures ws2"
  have "fst (weather_plot_dew us vs ds dates cmaps bcs exts ws1)
          = fst (weather_plot_dew us vs ds dates cmaps bcs exts ws2)
        \<and> figures (snd (weather_plot_dew us vs ds dates cmaps bcs exts ws1))
          = figures (snd (weather_plot_dew us vs ds dates cmaps bcs exts ws2))"
  proof (cases "files ws1 us = None \<or> files ws1 vs = None \<or> files ws1 ds = None")
    case True
    then have m1: "files ws1 us = None \<or> files ws1 vs = None \<or> files ws1 ds = None" .
    then have m2: "files ws2 us = None \<or> files ws2 vs = None \<or> files ws2 ds = None"
      using eq by (metis map_option_is_None)
    show ?thesis
      using weather_plot_dew_missing[OF m1] weather_plot_dew_missing[OF m2]
        weather_plot_dew_missing_figures[OF m1] weather_plot_dew_missing_figures[OF m2] fg
      by simp
  next
    case False
    then obtain du dv1 dd1 where f1: "files ws1 us = Some du" "files ws1 vs = Some dv1"
      "files ws1 ds = Some dd1" by auto
    from eq f1 obtain dv2 dd2 where f2: "files ws2 us = Some du" "files ws2 vs = Some dv2"
      "files ws2 ds = Some dd2" and d: "data_var dv1 = data_var dv2" "data_var dd1 = data_var dd2"
      by (auto simp: map_option_case split: option.splits)
    show ?thesis by (rule weather_plot_dew_figures_only[OF f1 f2 d fg])
  qed
  then show "fst (weather_plot_dew us vs ds dates cmaps bcs exts ws1)
          = fst (weather_plot_dew us vs ds dates cmaps bcs exts ws2)"
    and "figures (snd (weather_plot_dew us vs ds dates cmaps bcs exts ws1))
          = figures (snd (weather_plot_dew us vs ds dates cmaps bcs exts ws2))"
    by simp_all
next
  show "dew_select dus (dvs\<lparr>time_var := t3, level_var := l3, level_cast := c3,
             lat_var := a3, lon_var := o3\<rparr>)
        (dds\<lparr>time_var := t4, level_var := l4, level_cast := c4,
             lat_var := a4, lon_var := o4\<rparr>) dates
       = dew_select dus dvs dds dates"
    by (rule dew_select_data_only) simp_all
qed

theorem coordinates_read_from_uwnd_only_witness:
  "fst (weather_plot_hgt ''uwnd.nc'' ''vwnd.nc'' ''hgt.nc'' 500 ''1800-01-01 03:00:00''
          ''Reds'' ''darkblue'' None pressure_world_other)
     = Inr ([[5920, 5930, 5940], [5950, 5960, 5970]], 0)
   \<and> figures (snd (weather_plot_hgt ''uwnd.nc'' ''vwnd.nc'' ''hgt.nc'' 500 ''1800-01-01 03:00:00''
          ''Reds'' ''darkblue'' None pressure_world_other))
     = figures (snd (weather_plot_hgt ''uwnd.nc'' ''vwnd.nc'' ''hgt.nc'' 500 ''1800-01-01 03:00:00''
          ''Reds'' ''darkblue'' None pressure_world))
   \<and> fst (weather_plot_dew ''uwnd.10m.nc'' ''vwnd.10m.nc'' ''dpt.2m.nc'' ''1800-01-01 03:00:00''
          ''Greens'' ''blue'' None surface_world_other)
     = Inr ([[273.15, 292, 293], [294, 295, 296]], 0)
   \<and> figures (snd (weather_plot_dew ''uwnd.10m.nc'' ''vwnd.10m.nc'' ''dpt.2m.nc''
          ''1800-01-01 03:00:00'' ''Greens'' ''blue'' None surface_world_other))
     = figures (snd (weather_plot_dew ''uwnd.10m.nc'' ''vwnd.10m.nc'' ''dpt.2m.nc''
          ''1800-01-01 03:00:00'' ''Greens'' ''blue'' None surface_world))"
proof -
  have p: "files pressure_world_other ''uwnd.nc'' = files pressure_world ''uwnd.nc''
      \<and> map_option data_var (files pressure_world_other ''vwnd.nc'')
          = map_option data_var (files pressure_world ''vwnd.nc'')
      \<and> map_option data_var (files pressure_world_other ''hgt.nc'')
          = map_option data_var (files pressure_world ''hgt.nc'')
      \<and> figures pressure_world_other = figures pressure_world"
    by (simp add: pressure_world_other_def pressure_world_def)
  have s: "files surface_world_other ''uwnd.10m.nc'' = files surface_world ''uwnd.10m.nc''
      \<and> map_option data_var (files surface_world_other ''vwnd.10m.nc'')
          = map_option data_var (files surface_world ''vwnd.10m.nc'')
      \<and> map_option data_var (files surface_world_other ''dpt.2m.nc'')
          = map_option data_var (files surface_world ''dpt.2m.nc'')
      \<and> figures surface_world_other = figures surface_world"
    by (simp add: surface_world_other_def surface_world_def)
  note a = coordinates_read_from_uwnd_only[THEN conjunct1, THEN mp, OF p]
  note b = coordinates_read_from_uwnd_only[THEN conjunct2, THEN conjunct2, THEN conjunct1,
      THEN mp, OF s]
  have 1: "fst (weather_plot_hgt ''uwnd.nc'' ''vwnd.nc'' ''hgt.nc'' 500 ''1800-01-01 03:00:00''
          ''Reds'' ''darkblue'' None pressure_world_other)
     = Inr ([[5920, 5930, 5940], [5950, 5960, 5970]], 0)"
    unfolding a[THEN conjunct1] by (simp add: pressure_call)
  have 2: "fst (weather_plot_dew ''uwnd.10m.nc'' ''vwnd.10m.nc'' ''dpt.2m.nc'' ''1800-01-01 03:00:00''
          ''Greens'' ''blue'' None surface_world_other)
     = Inr ([[273.15, 292, 293], [294, 295, 296]], 0)"
    unfolding b[THEN conjunct1] by (simp add: surface_call)
  show ?thesis using 1 2 a[THEN conjunct2] b[THEN conjunct2] by blast
qed

text \<open>
  Claim C9. When a call to \<^verbatim>\<open>weather_plot_hgt\<close> has returned, a second call with the same
  arguments returns the same field array and a plot handle other than the first; the
  figure of the first handle is as the first call left it, and the figure of the second
  handle holds the same drawing.
\<close>

theorem repeated_call_independent:
  assumes "weather_plot_hgt u v h level date cmap bc ext w = (Inr (hgt1, ax1), w1)"
  shows "\<exists>hgt2 ax2 w2.
           weather_plot_hgt u v h level date cmap bc ext w1 = (Inr (hgt2, ax2), w2)
           \<and> hgt2 = hgt1 \<and> ax2 \<noteq> ax1
           \<and> ax1 < length (figures w1) \<and> ax2 < length (figures w2)
           \<and> length (figures w2) = length (figures w1) + 1
           \<and> take (length (figures w1)) (figures w2) = figures w1
           \<and> figures w2 ! ax1 = figures w1 ! ax1
           \<and> figures w2 ! ax2 = figures w1 ! ax1"
proof -
  from weather_plot_hgt_returns[OF assms] obtain du dv dh sel lon2 lat2 where
    f: "files w u = Some du" "files w v = Some dv" "files w h = Some dh"
    and s: "hgt_select du dv dh level date = Inr sel"
    and c: "check_xyz (sel_lon sel) (sel_lat sel) (sel_field sel) = None"
      "slice2_coords (sel_lon sel) = Inr lon2" "slice2_coords (sel_lat sel) = Inr lat2"
    and r: "hgt1 = sel_field sel" "ax1 = length (figures w)"
    and w1: "w1 = w\<lparr>handles := handles w @ [(u, False), (v, False), (h, False)],
                    figures := figures w @
                      [\<lparr>extent = ext,
                        contourf = Some (sel_lon sel, sel_lat sel, sel_field sel, height_range, cmap),
                        barbs = Some (lon2, lat2, slice2 (sel_uwnd sel), slice2 (sel_vwnd sel), bc),
                        features = FEATURES,
                        colorbar_label = Some (str_int level @ '' mb Geopotential Height (meters)'')\<rparr>]\<rparr>"
    by blast
  have f1: "files w1 u = Some du" "files w1 v = Some dv" "files w1 h = Some dh"
    using f by (simp_all add: w1)
  let ?fig = "\<lparr>extent = ext,
                contourf = Some (sel_lon sel, sel_lat sel, sel_field sel, height_range, cmap),
                barbs = Some (lon2, lat2, slice2 (sel_uwnd sel), slice2 (sel_vwnd sel), bc),
                features = FEATURES,
                colorbar_label = Some (str_int level @ '' mb Geopotential Height (meters)'')\<rparr>"
  let ?w2 = "w1\<lparr>handles := handles w1 @ [(u, False), (v, False), (h, False)],
                 figures := figures w1 @ [?fig]\<rparr>"
  have call: "weather_plot_hgt u v h level date cmap bc ext w1
                = (Inr (hgt1, length (figures w1)), ?w2)"
    by (simp add: weather_plot_hgt_present[OF f1] s draw_eq c r)
  have fw1: "figures w1 = figures w @ [?fig]" by (simp add: w1)
  show ?thesis
    using call by (simp add: r fw1 nth_append)
qed

theorem repeated_call_independent_witness:
  "\<exists>hgt2 ax2 w2.
     weather_plot_hgt ''uwnd.nc'' ''vwnd.nc'' ''hgt.nc'' 500 ''1800-01-01 03:00:00''
        ''Reds'' ''darkblue'' None
        (snd (weather_plot_hgt ''uwnd.nc'' ''vwnd.nc'' ''hgt.nc'' 500 ''1800-01-01 03:00:00''
                ''Reds'' ''darkblue'' None pressure_world))
       = (Inr (hgt2, ax2), w2)
     \<and> hgt2 = [[5920, 5930, 5940], [5950, 5960, 5970]] \<and> ax2 \<noteq> 0
     \<and> length (figures w2) = 2
     \<and> figures w2 ! 0
         = figures (snd (weather_plot_hgt ''uwnd.nc'' ''vwnd.nc'' ''hgt.nc'' 500
                ''1800-01-01 03:00:00'' ''Reds'' ''darkblue'' None pressure_world)) ! 0
     \<and> figures w2 ! ax2 = figures w2 ! 0"
proof -
  let ?w1 = "snd (weather_plot_hgt ''uwnd.nc'' ''vwnd.nc'' ''hgt.nc'' 500 ''1800-01-01 03:00:00''
                ''Reds'' ''darkblue'' None pressure_world)"
  have p: "weather_plot_hgt ''uwnd.nc'' ''vwnd.nc'' ''hgt.nc'' 500 ''1800-01-01 03:00:00''
             ''Reds'' ''darkblue'' None pressure_world
           = (Inr ([[5920, 5930, 5940], [5950, 5960, 5970]], 0), ?w1)"
    by (simp add: pressure_call)
  have l: "length (figures ?w1) = 1" by (simp add: pressure_call)
  from repeated_call_independent[OF p] obtain hgt2 ax2 w2 where
    a: "weather_plot_hgt ''uwnd.nc'' ''vwnd.nc'' ''hgt.nc'' 500 ''1800-01-01 03:00:00''
          ''Reds'' ''darkblue'' None ?w1 = (Inr (hgt2, ax2), w2)"
      "hgt2 = [[5920, 5930, 5940], [5950, 5960, 5970]]" "ax2 \<noteq> 0"
      "length (figures w2) = length (figures ?w1) + 1"
      "figures w2 ! 0 = figures ?w1 ! 0" "figures w2 ! ax2 = figures ?w1 ! 0"
    by blast
  show ?thesis
    using a l by (intro exI[of _ hgt2] exI[of _ ax2] exI[of _ w2]) simp
qed

end
